theory Spec2Isabelle
  imports Main
begin

section \<open>JavaScript values and string primitives\<close>

text \<open>
  A JavaScript string is modelled as a \<^typ>\<open>string\<close>; a property that may be
  \<^verbatim>\<open>undefined\<close> is a \<^typ>\<open>string option\<close>. The tool schema declares every tool
  argument as a string, so \<^verbatim>\<open>args\<close> is an association list from property names to
  strings and a missing property reads as \<^verbatim>\<open>undefined\<close>.
\<close>

definition truthy :: "string option \<Rightarrow> bool" where
  "truthy v = (case v of None \<Rightarrow> False | Some s \<Rightarrow> s \<noteq> [])"

text \<open>\<^verbatim>\<open>a || b\<close> on possibly undefined strings.\<close>

definition js_or :: "string option \<Rightarrow> string option \<Rightarrow> string option" where
  "js_or a b = (if truthy a then a else b)"

text \<open>\<^verbatim>\<open>ToString\<close>: what a string-taking builtin makes of an argument.\<close>

definition toStr :: "string option \<Rightarrow> string" where
  "toStr v = (case v of None \<Rightarrow> ''undefined'' | Some s \<Rightarrow> s)"

text \<open>\<^verbatim>\<open>Number.prototype.toString\<close> on the integers the code prints.\<close>

fun digits :: "nat \<Rightarrow> string" where
  "digits n =
     (if n < 10 then [''0123456789'' ! n]
      else digits (n div 10) @ [''0123456789'' ! (n mod 10)])"

declare digits.simps [simp del]

definition toString :: "int \<Rightarrow> string" where
  "toString i = (if i < 0 then CHR ''-'' # digits (nat (- i)) else digits (nat i))"

text \<open>\<^verbatim>\<open>String.prototype.indexOf\<close>: the first position at which the pattern occurs.\<close>

fun indexOf :: "string \<Rightarrow> string \<Rightarrow> nat option" where
  "indexOf [] pat = (if pat = [] then Some 0 else None)"
| "indexOf (c # cs) pat =
     (if take (length pat) (c # cs) = pat then Some 0
      else map_option Suc (indexOf cs pat))"

text \<open>\<^verbatim>\<open>String.prototype.includes\<close>.\<close>

definition str_includes :: "string \<Rightarrow> string \<Rightarrow> bool" where
  "str_includes s pat = (indexOf s pat \<noteq> None)"

text \<open>
  \<^verbatim>\<open>GetSubstitution\<close> for a string pattern (no capture groups): in the replacement
  text \<^verbatim>\<open>$$\<close> stands for a dollar sign, \<^verbatim>\<open>$&\<close> for the matched text, \<^verbatim>\<open>$`\<close> for
  the text before the match and \<^verbatim>\<open>$'\<close> for the text after it; every other character,
  a dollar sign followed by anything else included, stands for itself.
\<close>

fun getSubstitution :: "string \<Rightarrow> string \<Rightarrow> string \<Rightarrow> string \<Rightarrow> string" where
  "getSubstitution matched preceding following [] = []"
| "getSubstitution matched preceding following [c] = [c]"
| "getSubstitution matched preceding following (c # d # rest) =
     (if c = CHR ''$'' \<and> d = CHR ''$'' then CHR ''$'' # getSubstitution matched preceding following rest
      else if c = CHR ''$'' \<and> d = CHR ''&'' then matched @ getSubstitution matched preceding following rest
      else if c = CHR ''$'' \<and> d = CHR 0x60 then preceding @ getSubstitution matched preceding following rest
      else if c = CHR ''$'' \<and> d = CHR 0x27 then following @ getSubstitution matched preceding following rest
      else c # getSubstitution matched preceding following (d # rest))"

text \<open>
  \<^verbatim>\<open>String.prototype.replace\<close> with a string pattern and a string replacement: only
  the first occurrence is replaced, and the string is returned as it is when the pattern
  does not occur.
\<close>

definition replace :: "string \<Rightarrow> string \<Rightarrow> string \<Rightarrow> string" where
  "replace s pat rep =
     (case indexOf s pat of
        None \<Rightarrow> s
      | Some i \<Rightarrow>
          take i s
          @ getSubstitution pat (take i s) (drop (i + length pat) s) rep
          @ drop (i + length pat) s)"

text \<open>\<^verbatim>\<open>s.replace(/\s/g, '')\<close>: the white space of the characters modelled.\<close>

definition isSpace :: "char \<Rightarrow> bool" where
  "isSpace c = (c \<in> set [CHR 0x09, CHR 0x0A, CHR 0x0B, CHR 0x0C, CHR 0x0D, CHR 0x20, CHR 0xA0])"

definition stripSpace :: "string \<Rightarrow> string" where
  "stripSpace s = filter (\<lambda>c. \<not> isSpace c) s"

text \<open>\<^verbatim>\<open>s.split('/')\<close> and \<^verbatim>\<open>segments.join('/')\<close>.\<close>

fun split_slash :: "string \<Rightarrow> string list" where
  "split_slash [] = [[]]"
| "split_slash (c # cs) =
     (if c = CHR ''/'' then [] # split_slash cs
      else (case split_slash cs of
              [] \<Rightarrow> [[c]]
            | seg # segs \<Rightarrow> (c # seg) # segs))"

fun join_slash :: "string list \<Rightarrow> string" where
  "join_slash [] = []"
| "join_slash [seg] = seg"
| "join_slash (seg # segs) = seg @ CHR ''/'' # join_slash segs"

section \<open>Data model of the agent core\<close>

text \<open>The fields of the hosting provider's objects that the agent core reads.\<close>

record GitHubRepo =
  owner_login :: string
  repo_name :: string

record GitHubFile =
  file_name :: string
  file_path :: string
  sha :: string
  file_type :: string
  content :: "string option"

datatype ToolStatus = pending | approved | rejected | executed | failed

record ToolCall =
  tc_id :: string
  tc_name :: string
  args :: "(string \<times> string) list"
  status :: ToolStatus

datatype Role = RoleUser | RoleModel | RoleSystem | RoleFunction

record ToolResponse =
  tr_name :: string
  tr_result :: string

record ChatMessage =
  msg_id :: string
  role :: Role
  msg_text :: "string option"
  timestamp :: int
  toolCalls :: "ToolCall list option"
  toolResponse :: "ToolResponse option"

record AgentContextState =
  activeTab :: string
  currentRepo :: "GitHubRepo option"
  currentPath :: "string option"
  currentFile :: "GitHubFile option"
  fileContent :: "string option"
  currentSelection :: "string option"

record AgentContextSettings =
  includeRepoMap :: bool
  includeFileContent :: bool
  includeSelection :: bool

section \<open>Reasoning engine adapter: history serialization and context\<close>

text \<open>The parts of a \<^verbatim>\<open>contents\<close> entry sent to the reasoning engine.\<close>

datatype Part =
  TextPart string
| FunctionCallPart string "(string \<times> string) list"
| FunctionResponsePart string string

record Content =
  c_role :: string
  parts :: "Part list"

text \<open>
  \<^verbatim>\<open>getGeminiHistory\<close>: every message is mapped to one entry. A message that is
  neither a user message, a model message nor a function message with a tool response
  takes the last \<^verbatim>\<open>return\<close> of the source.
\<close>

definition toolCallPart :: "ToolCall \<Rightarrow> Part" where
  "toolCallPart tc = FunctionCallPart (tc_name tc) (args tc)"

definition historyEntry :: "ChatMessage \<Rightarrow> Content" where
  "historyEntry m =
     (if role m = RoleUser then
        \<lparr>c_role = ''user'', parts = [TextPart (toStr (js_or (msg_text m) (Some [])))]\<rparr>
      else if role m = RoleModel then
        \<lparr>c_role = ''model'',
         parts = (if truthy (msg_text m) then [TextPart (toStr (msg_text m))] else [])
                 @ (case toolCalls m of None \<Rightarrow> [] | Some tcs \<Rightarrow> map toolCallPart tcs)\<rparr>
      else if role m = RoleFunction \<and> toolResponse m \<noteq> None then
        (case toolResponse m of
           Some tr \<Rightarrow>
             \<lparr>c_role = ''user'', parts = [FunctionResponsePart (tr_name tr) (tr_result tr)]\<rparr>
         | None \<Rightarrow>
             \<lparr>c_role = ''user'', parts = [TextPart (toStr (js_or (msg_text m) (Some [])))]\<rparr>)
      else
        \<lparr>c_role = ''user'', parts = [TextPart (toStr (js_or (msg_text m) (Some [])))]\<rparr>)"

definition getGeminiHistory :: "ChatMessage list \<Rightarrow> Content list" where
  "getGeminiHistory msgs = map historyEntry msgs"

text \<open>
  The disclosed context is a JavaScript object: a finite map from property names to
  values. A property that was assigned \<^verbatim>\<open>undefined\<close> is present with the value
  \<open>Undefined\<close>; a property that was never assigned is absent.
\<close>

datatype CtxValue =
  Undefined
| Str string
| Repo GitHubRepo
| File GitHubFile

definition strValue :: "string option \<Rightarrow> CtxValue" where
  "strValue v = (case v of None \<Rightarrow> Undefined | Some s \<Rightarrow> Str s)"

definition repoValue :: "GitHubRepo option \<Rightarrow> CtxValue" where
  "repoValue v = (case v of None \<Rightarrow> Undefined | Some r \<Rightarrow> Repo r)"

definition fileValue :: "GitHubFile option \<Rightarrow> CtxValue" where
  "fileValue v = (case v of None \<Rightarrow> Undefined | Some f \<Rightarrow> File f)"

type_synonym DisclosedContext = "string \<rightharpoonup> CtxValue"

definition getFilteredContext ::
  "AgentContextState \<Rightarrow> AgentContextSettings \<Rightarrow> DisclosedContext" where
  "getFilteredContext contextState contextSettings =
     (let ctx0 = [''activeTab'' \<mapsto> Str (activeTab contextState)];
          ctx1 = (if includeRepoMap contextSettings
                  then ctx0(''currentRepo'' \<mapsto> repoValue (currentRepo contextState),
                            ''currentPath'' \<mapsto> strValue (currentPath contextState))
                  else ctx0);
          ctx2 = (if includeFileContent contextSettings
                  then ctx1(''currentFile'' \<mapsto> fileValue (currentFile contextState),
                            ''fileContent'' \<mapsto> strValue (fileContent contextState))
                  else ctx1);
          ctx3 = (if includeSelection contextSettings
                  then ctx2(''currentSelection'' \<mapsto> strValue (currentSelection contextState))
                  else ctx2)
      in ctx3)"

text \<open>
  \<^verbatim>\<open>GeminiService.generateResponse\<close>: the request handed to the engine's client. The
  conversation is the history followed by one user entry carrying \<^verbatim>\<open>userMessage\<close>;
  the system instruction embeds the context (its fixed prose is left out).
\<close>

record EngineRequest =
  req_model :: string
  contents :: "Content list"
  systemContext :: DisclosedContext

definition generateResponse ::
  "Content list \<Rightarrow> string \<Rightarrow> DisclosedContext \<Rightarrow> string \<Rightarrow> EngineRequest" where
  "generateResponse history userMessage context model =
     \<lparr>req_model = model,
      contents = history @ [\<lparr>c_role = ''user'', parts = [TextPart userMessage]\<rparr>],
      systemContext = context\<rparr>"

section \<open>Remote repository adapter\<close>

text \<open>
  The browser's \<^verbatim>\<open>fetch\<close> is the boundary to the hosting provider: a parameter
  \<open>net\<close> that takes a request and the remote state and gives back either the message
  of the error the promise rejects with or a response, and the new remote state.
\<close>

datatype Method = GET | PUT | DELETE

record Request =
  http_method :: Method
  endpoint :: string
  headers :: "(string \<times> string) list"
  body :: "(string \<times> string) list option"

text \<open>What the callers look at in a parsed response body.\<close>

datatype Json =
  JFile GitHubFile
| JList "GitHubFile list"
| JOther

record Response =
  http_status :: nat
  statusText :: string
  json :: Json

definition ok :: "Response \<Rightarrow> bool" where
  "ok response = (200 \<le> http_status response \<and> http_status response \<le> 299)"

type_synonym 'r Net = "Request \<Rightarrow> 'r \<Rightarrow> (string + Response) \<times> 'r"

text \<open>
  The builtins of the platform that the adapter calls are parameters:
  \<^verbatim>\<open>encodeURIComponent\<close>; \<open>btoaUtf8 s\<close> for
  \<^verbatim>\<open>window.btoa(unescape(encodeURIComponent(s)))\<close>; \<open>atobUtf8 s\<close> for
  \<^verbatim>\<open>decodeURIComponent(escape(window.atob(s)))\<close>, which throws on malformed input
  (\<open>Inl\<close> carries the message); \<open>stringify\<close> for \<^verbatim>\<open>JSON.stringify\<close> of a response body.
\<close>

record Platform =
  encodeURIComponent :: "string \<Rightarrow> string"
  btoaUtf8 :: "string \<Rightarrow> string"
  atobUtf8 :: "string \<Rightarrow> string + string"
  stringify :: "Json \<Rightarrow> string"

record GitHubService =
  token :: string

text \<open>
  The remote side as the adapter sees it: the remote state and the log of the requests
  issued so far. The log is what "a remote call was made" means below.
\<close>

record 'r World =
  remote :: 'r
  httpLog :: "Request list"

text \<open>\<^verbatim>\<open>GitHubService.fetch\<close>: the request it builds, and what it makes of the answer.\<close>

definition buildRequest ::
  "GitHubService \<Rightarrow> Method \<Rightarrow> string \<Rightarrow> (string \<times> string) list option \<Rightarrow> Request" where
  "buildRequest svc m ep b =
     \<lparr>http_method = m, endpoint = ep,
      headers = [(''Authorization'', ''Bearer '' @ token svc),
                 (''Accept'', ''application/vnd.github.v3+json'')]
                @ (if b \<noteq> None then [(''Content-Type'', ''application/json'')] else []),
      body = b\<rparr>"

definition forbidden :: string where
  \<open>forbidden = ''Forbidden: Check Token Scopes (needs "user" or "user:follow")''\<close>

definition service_fetch ::
  "'r Net \<Rightarrow> GitHubService \<Rightarrow> Method \<Rightarrow> string \<Rightarrow> (string \<times> string) list option
     \<Rightarrow> 'r World \<Rightarrow> (string + Json) \<times> 'r World" where
  "service_fetch net svc m ep b w =
     (let request = buildRequest svc m ep b;
          (answer, r') = net request (remote w);
          w' = \<lparr>remote = r', httpLog = httpLog w @ [request]\<rparr>
      in case answer of
           Inl msg \<Rightarrow> (Inl msg, w')
         | Inr response \<Rightarrow>
             if \<not> ok response then
               (if http_status response = 401 then (Inl ''Unauthorized: Invalid Token'', w')
                else if http_status response = 403 then (Inl forbidden, w')
                else
                  (Inl (''GitHub API Error: '' @ statusText response @ '' (''
                        @ toString (int (http_status response)) @ '')''), w'))
             else if http_status response = 204 \<or> http_status response = 205 then (Inr JOther, w')
             else (Inr (json response), w'))"

definition encodePath :: "Platform \<Rightarrow> string \<Rightarrow> string" where
  "encodePath pf path = join_slash (map (encodeURIComponent pf) (split_slash path))"

definition contentsEndpoint :: "Platform \<Rightarrow> string \<Rightarrow> string \<Rightarrow> string \<Rightarrow> string" where
  "contentsEndpoint pf owner repo path =
     ''/repos/'' @ owner @ ''/'' @ repo @ ''/contents/'' @ encodePath pf path"

text \<open>\<^verbatim>\<open>GitHubService.getRepoContents\<close>.\<close>

definition getRepoContents ::
  "Platform \<Rightarrow> 'r Net \<Rightarrow> GitHubService \<Rightarrow> string \<Rightarrow> string \<Rightarrow> string
     \<Rightarrow> 'r World \<Rightarrow> (string + Json) \<times> 'r World" where
  "getRepoContents pf net service owner repo path w =
     service_fetch net service GET (contentsEndpoint pf owner repo path) None w"

text \<open>
  \<^verbatim>\<open>JSON.stringify\<close> of an object literal leaves out the properties whose value is
  \<^verbatim>\<open>undefined\<close>.
\<close>

definition jsonField :: "string \<Rightarrow> string option \<Rightarrow> (string \<times> string) list" where
  "jsonField k v = (case v of None \<Rightarrow> [] | Some s \<Rightarrow> [(k, s)])"

text \<open>\<^verbatim>\<open>GitHubService.updateFile\<close>: the version token enters the body only if truthy.\<close>

definition updateFile ::
  "Platform \<Rightarrow> 'r Net \<Rightarrow> GitHubService \<Rightarrow> string \<Rightarrow> string \<Rightarrow> string
     \<Rightarrow> string option \<Rightarrow> string option \<Rightarrow> string option
     \<Rightarrow> 'r World \<Rightarrow> (string + Json) \<times> 'r World" where
  "updateFile pf net service owner repo path content_arg sha_arg message w =
     (let encodedContent = btoaUtf8 pf (toStr content_arg);
          b = jsonField ''message'' message @ [(''content'', encodedContent)]
              @ (if truthy sha_arg then jsonField ''sha'' sha_arg else [])
      in service_fetch net service PUT (contentsEndpoint pf owner repo path) (Some b) w)"

definition json_sha :: "Json \<Rightarrow> string option" where
  "json_sha j = (case j of JFile f \<Rightarrow> Some (sha f) | _ \<Rightarrow> None)"

definition json_content :: "Json \<Rightarrow> string option" where
  "json_content j = (case j of JFile f \<Rightarrow> content f | _ \<Rightarrow> None)"

text \<open>
  \<^verbatim>\<open>GitHubService.deleteFile\<close>: without a version token it reads the file first, and
  any failure of that read is reported as the file not being found.
\<close>

definition deleteFile ::
  "Platform \<Rightarrow> 'r Net \<Rightarrow> GitHubService \<Rightarrow> string \<Rightarrow> string \<Rightarrow> string
     \<Rightarrow> string option \<Rightarrow> string option
     \<Rightarrow> 'r World \<Rightarrow> (string + Json) \<times> 'r World" where
  "deleteFile pf net service owner repo path message sha_arg w =
     (if \<not> truthy sha_arg then
        (case getRepoContents pf net service owner repo path w of
           (Inl e, w1) \<Rightarrow> (Inl (''Cannot delete file. File not found: '' @ path), w1)
         | (Inr file, w1) \<Rightarrow>
             service_fetch net service DELETE (contentsEndpoint pf owner repo path)
               (Some (jsonField ''message'' message @ jsonField ''sha'' (json_sha file))) w1)
      else
        service_fetch net service DELETE (contentsEndpoint pf owner repo path)
          (Some (jsonField ''message'' message @ jsonField ''sha'' sha_arg)) w)"

section \<open>Agent provider state\<close>

record GeminiService =
  apiKey :: string

text \<open>
  The React state of the provider, with the \<^verbatim>\<open>service\<close> prop. A handler is a closure
  over the values of the render that created it: it reads them from a snapshot
  \<open>snap\<close>, while its state setters act on the current state.
\<close>

record AgentState =
  isEnabled :: bool
  messages :: "ChatMessage list"
  contextState :: AgentContextState
  contextSettings :: AgentContextSettings
  pendingToolCall :: "ToolCall option"
  isThinking :: bool
  lastActionTimestamp :: int
  selectedModel :: string
  gemini :: "GeminiService option"
  service :: "GitHubService option"

text \<open>The provider together with what lies outside it: the remote side and the requests sent to the engine.\<close>

record 'r System =
  agent :: AgentState
  world :: "'r World"
  engineLog :: "EngineRequest list"

definition setMessages :: "(ChatMessage list \<Rightarrow> ChatMessage list) \<Rightarrow> 'r System \<Rightarrow> 'r System" where
  "setMessages f sys = sys\<lparr>agent := (agent sys)\<lparr>messages := f (messages (agent sys))\<rparr>\<rparr>"

definition setIsThinking :: "bool \<Rightarrow> 'r System \<Rightarrow> 'r System" where
  "setIsThinking b sys = sys\<lparr>agent := (agent sys)\<lparr>isThinking := b\<rparr>\<rparr>"

definition setPendingToolCall :: "ToolCall option \<Rightarrow> 'r System \<Rightarrow> 'r System" where
  "setPendingToolCall p sys = sys\<lparr>agent := (agent sys)\<lparr>pendingToolCall := p\<rparr>\<rparr>"

definition setLastActionTimestamp :: "int \<Rightarrow> 'r System \<Rightarrow> 'r System" where
  "setLastActionTimestamp t sys = sys\<lparr>agent := (agent sys)\<lparr>lastActionTimestamp := t\<rparr>\<rparr>"

definition systemMessage :: "int \<Rightarrow> string \<Rightarrow> ChatMessage" where
  "systemMessage now txt =
     \<lparr>msg_id = toString now, role = RoleSystem, msg_text = Some txt, timestamp = now,
      toolCalls = None, toolResponse = None\<rparr>"

section \<open>Tool execution adapter\<close>

definition patchMismatch :: string where
  "patchMismatch = ''Could not find the 'search' text in the file. Ensure the search block matches the file content exactly.''"

text \<open>
  The \<^verbatim>\<open>try\<close> block of \<^verbatim>\<open>executeTool\<close>: \<open>Inl\<close> carries the message of a thrown
  error, \<open>Inr\<close> the result of a branch that reached its \<^verbatim>\<open>break\<close>. \<open>now\<close> is the
  reading of \<^verbatim>\<open>Date.now()\<close>.
\<close>

definition tryTool ::
  "Platform \<Rightarrow> 'r Net \<Rightarrow> int \<Rightarrow> GitHubService \<Rightarrow> string \<Rightarrow> (string \<times> string) list
     \<Rightarrow> string \<Rightarrow> string \<Rightarrow> string \<Rightarrow> 'r System \<Rightarrow> (string + string) \<times> 'r System" where
  "tryTool pf net now svc name a owner repo path sys =
     (if name = ''list_files'' then
        (case getRepoContents pf net svc owner repo path (world sys) of
           (Inl e, w) \<Rightarrow> (Inl e, sys\<lparr>world := w\<rparr>)
         | (Inr files, w) \<Rightarrow> (Inr (stringify pf files), sys\<lparr>world := w\<rparr>))
      else if name = ''read_file'' then
        (case getRepoContents pf net svc owner repo path (world sys) of
           (Inl e, w) \<Rightarrow> (Inl e, sys\<lparr>world := w\<rparr>)
         | (Inr file, w) \<Rightarrow>
             if truthy (json_content file) then
               (case atobUtf8 pf (stripSpace (toStr (json_content file))) of
                  Inl e \<Rightarrow> (Inl e, sys\<lparr>world := w\<rparr>)
                | Inr decoded \<Rightarrow> (Inr decoded, sys\<lparr>world := w\<rparr>))
             else (Inr ''File is empty or a directory.'', sys\<lparr>world := w\<rparr>))
      else if name = ''create_or_update_file'' then
        (let (sha_found, w1) =
               (case getRepoContents pf net svc owner repo path (world sys) of
                  (Inl e, w) \<Rightarrow> (None, w)
                | (Inr existing, w) \<Rightarrow>
                    (if truthy (json_sha existing) then json_sha existing else None, w))
         in case updateFile pf net svc owner repo path (map_of a ''content'') sha_found
                   (map_of a ''message'') w1 of
              (Inl e, w2) \<Rightarrow> (Inl e, sys\<lparr>world := w2\<rparr>)
            | (Inr done, w2) \<Rightarrow>
                (Inr ''Success: File created/updated.'',
                 setLastActionTimestamp now (sys\<lparr>world := w2\<rparr>)))
      else if name = ''replace_in_file'' then
        (case getRepoContents pf net svc owner repo path (world sys) of
           (Inl e, w1) \<Rightarrow> (Inl e, sys\<lparr>world := w1\<rparr>)
         | (Inr fileObj, w1) \<Rightarrow>
             if \<not> truthy (json_content fileObj) then
               (Inl ''File is empty or not found'', sys\<lparr>world := w1\<rparr>)
             else
               (case atobUtf8 pf (stripSpace (toStr (json_content fileObj))) of
                  Inl e \<Rightarrow> (Inl e, sys\<lparr>world := w1\<rparr>)
                | Inr currentContent \<Rightarrow>
                    if \<not> str_includes currentContent (toStr (map_of a ''search'')) then
                      (Inl patchMismatch, sys\<lparr>world := w1\<rparr>)
                    else
                      (let newContent = replace currentContent (toStr (map_of a ''search''))
                                          (toStr (map_of a ''replace''))
                       in case updateFile pf net svc owner repo path (Some newContent)
                                 (json_sha fileObj) (map_of a ''message'') w1 of
                            (Inl e, w2) \<Rightarrow> (Inl e, sys\<lparr>world := w2\<rparr>)
                          | (Inr done, w2) \<Rightarrow>
                              (Inr ''Success: Content replaced.'',
                               setLastActionTimestamp now (sys\<lparr>world := w2\<rparr>)))))
      else if name = ''delete_file'' then
        (case deleteFile pf net svc owner repo path (map_of a ''message'') None (world sys) of
           (Inl e, w) \<Rightarrow> (Inl e, sys\<lparr>world := w\<rparr>)
         | (Inr done, w) \<Rightarrow>
             (Inr ''Success: File deleted.'', setLastActionTimestamp now (sys\<lparr>world := w\<rparr>)))
      else (Inr ''Error: Unknown tool.'', sys))"

text \<open>The inference of owner, repository and path from the arguments and the context.\<close>

definition resolveOwner :: "(string \<times> string) list \<Rightarrow> AgentContextState \<Rightarrow> string option" where
  "resolveOwner a cs = js_or (map_of a ''owner'') (map_option owner_login (currentRepo cs))"

definition resolveRepo :: "(string \<times> string) list \<Rightarrow> AgentContextState \<Rightarrow> string option" where
  "resolveRepo a cs = js_or (map_of a ''repo'') (map_option repo_name (currentRepo cs))"

definition resolvePath :: "(string \<times> string) list \<Rightarrow> AgentContextState \<Rightarrow> string" where
  "resolvePath a cs = toStr (js_or (js_or (map_of a ''path'') (currentPath cs)) (Some []))"

definition missingContext :: string where
  "missingContext = ''Error: Context (owner/repo) is missing and not provided.''"

text \<open>\<^verbatim>\<open>executeTool\<close>, called from the closure \<open>snap\<close>.\<close>

definition executeTool ::
  "Platform \<Rightarrow> 'r Net \<Rightarrow> int \<Rightarrow> ToolCall \<Rightarrow> AgentState \<Rightarrow> 'r System \<Rightarrow> string \<times> 'r System" where
  "executeTool pf net now tool snap sys =
     (case service snap of
        None \<Rightarrow> (''Error: No GitHub service connection.'', sys)
      | Some svc \<Rightarrow>
          (let owner = resolveOwner (args tool) (contextState snap);
               repo = resolveRepo (args tool) (contextState snap);
               path = resolvePath (args tool) (contextState snap)
           in if \<not> truthy owner \<or> \<not> truthy repo then (missingContext, sys)
              else
                (case tryTool pf net now svc (tc_name tool) (args tool)
                        (toStr owner) (toStr repo) path sys of
                   (Inl e, sys') \<Rightarrow> (''Error: '' @ e, sys')
                 | (Inr result, sys') \<Rightarrow> (result, sys'))))"

section \<open>Agent orchestrator\<close>

text \<open>What the engine's client resolves with: the candidates, each given by the parts of its content.\<close>

record FunctionCall =
  fc_name :: string
  fc_args :: "(string \<times> string) list"

record ResponsePart =
  part_text :: "string option"
  functionCall :: "FunctionCall option"

type_synonym EngineResponse = "ResponsePart list list"

text \<open>
  The loop of \<^verbatim>\<open>processModelResponse\<close> over the parts, with its two accumulators.
  \<open>rnd k\<close> is the text of the \<^verbatim>\<open>Math.random()\<close> drawn for the \<open>k\<close>-th tool call.
\<close>

definition collectPart ::
  "int \<Rightarrow> (nat \<Rightarrow> string) \<Rightarrow> string \<times> ToolCall list \<Rightarrow> ResponsePart \<Rightarrow> string \<times> ToolCall list" where
  "collectPart now rnd acc part =
     (let (modelText, tools) = acc;
          modelText' = (if truthy (part_text part) then modelText @ toStr (part_text part)
                        else modelText);
          tools' = (case functionCall part of
                      None \<Rightarrow> tools
                    | Some fc \<Rightarrow>
                        tools @ [\<lparr>tc_id = toString now @ rnd (length tools), tc_name = fc_name fc,
                                  args = fc_args fc, status = pending\<rparr>])
      in (modelText', tools'))"

definition processModelResponse ::
  "int \<Rightarrow> (nat \<Rightarrow> string) \<Rightarrow> EngineResponse \<Rightarrow> 'r System \<Rightarrow> 'r System" where
  "processModelResponse now rnd response sys =
     (case response of
        [] \<Rightarrow> setIsThinking False sys
      | candidate # others \<Rightarrow>
          (let (modelText, tools) = foldl (collectPart now rnd) ([], []) candidate;
               newModelMsg =
                 \<lparr>msg_id = toString (now + 1), role = RoleModel, msg_text = Some modelText,
                  timestamp = now,
                  toolCalls = (if length tools > 0 then Some tools else None),
                  toolResponse = None\<rparr>;
               sys1 = setMessages (\<lambda>prev. prev @ [newModelMsg]) sys;
               sys2 = (if length tools > 0 then setPendingToolCall (Some (hd tools)) sys1 else sys1)
           in setIsThinking False sys2))"

text \<open>
  What follows \<^verbatim>\<open>await gemini.generateResponse(...)\<close> in \<^verbatim>\<open>sendMessage\<close> and in
  \<^verbatim>\<open>approveToolCall\<close>: the response is processed, or the \<^verbatim>\<open>catch\<close> block reports the
  error (\<open>Inl\<close> carries its message; an empty message prints as the stringified error).
\<close>

definition engineSettled ::
  "int \<Rightarrow> (nat \<Rightarrow> string) \<Rightarrow> string + EngineResponse \<Rightarrow> 'r System \<Rightarrow> 'r System" where
  "engineSettled now rnd outcome sys =
     (case outcome of
        Inr response \<Rightarrow> processModelResponse now rnd response sys
      | Inl e \<Rightarrow>
          (let errorMsg = (if e \<noteq> [] then e else ''{}'')
           in setIsThinking False
                (setMessages (\<lambda>prev. prev @ [systemMessage now (''DEBUG ERROR: '' @ errorMsg)]) sys)))"

definition missingKey :: string where
  "missingKey = ''Error: Gemini API Key not configured. Please add it in Settings > Intelligence Engine.''"

text \<open>
  \<^verbatim>\<open>sendMessage\<close> up to its \<^verbatim>\<open>await\<close>: the request to the engine is recorded in
  \<open>engineLog\<close>. There is no test of \<open>isThinking\<close> or \<open>pendingToolCall\<close>.
\<close>

definition sendMessage :: "int \<Rightarrow> string \<Rightarrow> AgentState \<Rightarrow> 'r System \<Rightarrow> 'r System" where
  "sendMessage now txt snap sys =
     (if \<not> isEnabled snap \<or> service snap = None then sys
      else if gemini snap = None then
        setMessages (\<lambda>prev. prev @ [systemMessage now missingKey]) sys
      else
        (let newUserMsg =
               \<lparr>msg_id = toString now, role = RoleUser, msg_text = Some txt, timestamp = now,
                toolCalls = None, toolResponse = None\<rparr>;
             updatedMessages = messages snap @ [newUserMsg];
             sys1 = setIsThinking True (setMessages (\<lambda>prev. updatedMessages) sys);
             history = getGeminiHistory updatedMessages;
             filteredContext = getFilteredContext (contextState snap) (contextSettings snap)
         in sys1\<lparr>engineLog := engineLog sys1
                     @ [generateResponse history [] filteredContext (selectedModel snap)]\<rparr>))"

text \<open>The state update of step 1 of \<^verbatim>\<open>approveToolCall\<close>.\<close>

definition markExecuted :: "ToolCall \<Rightarrow> ChatMessage list \<Rightarrow> ChatMessage list" where
  "markExecuted p prev =
     (if prev = [] then prev
      else
        (let last_msg = last prev
         in case toolCalls last_msg of
              None \<Rightarrow> prev
            | Some tcs \<Rightarrow>
                (let updatedTools =
                       map (\<lambda>t. if tc_id t = tc_id p then t\<lparr>status := executed\<rparr> else t) tcs
                 in butlast prev @ [last_msg\<lparr>toolCalls := Some updatedTools\<rparr>])))"

text \<open>\<^verbatim>\<open>approveToolCall\<close> up to \<^verbatim>\<open>await executeTool(pendingToolCall)\<close>.\<close>

definition approveToolCall_begin :: "AgentState \<Rightarrow> 'r System \<Rightarrow> 'r System" where
  "approveToolCall_begin snap sys =
     (case pendingToolCall snap of
        None \<Rightarrow> sys
      | Some p \<Rightarrow>
          if gemini snap = None then sys
          else setIsThinking True
                 (setPendingToolCall None (setMessages (markExecuted p) sys)))"

text \<open>
  \<^verbatim>\<open>approveToolCall\<close> from the execution of the tool (at clock reading \<open>tExec\<close>) up to
  the second \<^verbatim>\<open>await\<close> (at \<open>tDone\<close>): the new message list is built from the
  \<^verbatim>\<open>messages\<close> of the closure.
\<close>

definition approveToolCall_execute ::
  "Platform \<Rightarrow> 'r Net \<Rightarrow> int \<Rightarrow> int \<Rightarrow> AgentState \<Rightarrow> 'r System \<Rightarrow> 'r System" where
  "approveToolCall_execute pf net tExec tDone snap sys =
     (case pendingToolCall snap of
        None \<Rightarrow> sys
      | Some p \<Rightarrow>
          if gemini snap = None then sys
          else
            (let (result, sys1) = executeTool pf net tExec p snap sys;
                 functionResponseMsg =
                   \<lparr>msg_id = toString tDone, role = RoleFunction, msg_text = None,
                    timestamp = tDone, toolCalls = None,
                    toolResponse = Some \<lparr>tr_name = tc_name p, tr_result = result\<rparr>\<rparr>;
                 updatedMessages = messages snap @ [functionResponseMsg];
                 sys2 = setMessages (\<lambda>prev. updatedMessages) sys1;
                 history = getGeminiHistory updatedMessages;
                 filteredContext = getFilteredContext (contextState snap) (contextSettings snap)
             in sys2\<lparr>engineLog := engineLog sys2
                         @ [generateResponse history [] filteredContext (selectedModel snap)]\<rparr>))"

definition approveToolCall ::
  "Platform \<Rightarrow> 'r Net \<Rightarrow> int \<Rightarrow> int \<Rightarrow> AgentState \<Rightarrow> 'r System \<Rightarrow> 'r System" where
  "approveToolCall pf net tExec tDone snap sys =
     approveToolCall_execute pf net tExec tDone snap (approveToolCall_begin snap sys)"

definition cancelled :: string where
  "cancelled = ''Tool execution cancelled by user.''"

definition rejectToolCall :: "int \<Rightarrow> 'r System \<Rightarrow> 'r System" where
  "rejectToolCall now sys =
     setMessages (\<lambda>prev. prev @ [systemMessage now cancelled]) (setPendingToolCall None sys)"

text \<open>
  The provider driven by its events, each handler called from the latest render (its
  snapshot is the current state).
\<close>

datatype Event =
  SendMessage int string
| EngineSettled int "nat \<Rightarrow> string" "string + EngineResponse"
| ApproveToolCall int int
| RejectToolCall int
| EnableAgent

definition step :: "Platform \<Rightarrow> 'r Net \<Rightarrow> Event \<Rightarrow> 'r System \<Rightarrow> 'r System" where
  "step pf net ev sys =
     (case ev of
        SendMessage now txt \<Rightarrow> sendMessage now txt (agent sys) sys
      | EngineSettled now rnd outcome \<Rightarrow> engineSettled now rnd outcome sys
      | ApproveToolCall tExec tDone \<Rightarrow> approveToolCall pf net tExec tDone (agent sys) sys
      | RejectToolCall now \<Rightarrow> rejectToolCall now sys
      | EnableAgent \<Rightarrow> sys\<lparr>agent := (agent sys)\<lparr>isEnabled := True\<rparr>\<rparr>)"

definition run :: "Platform \<Rightarrow> 'r Net \<Rightarrow> Event list \<Rightarrow> 'r System \<Rightarrow> 'r System" where
  "run pf net evs sys = foldl (\<lambda>s ev. step pf net ev s) sys evs"

section \<open>The patch semantics the specification asks for\<close>

text \<open>
  Following the specification's words, not the source: every occurrence of the exact
  search text, from left to right and without overlap, gives way to the replace text,
  taken literally. The counter says how many characters of a match are still to be
  skipped.
\<close>

fun replaceEvery :: "string \<Rightarrow> string \<Rightarrow> nat \<Rightarrow> string \<Rightarrow> string" where
  "replaceEvery pat rep k [] = []"
| "replaceEvery pat rep (Suc k) (c # cs) = replaceEvery pat rep k cs"
| "replaceEvery pat rep 0 (c # cs) =
     (if take (length pat) (c # cs) = pat
      then rep @ replaceEvery pat rep (length pat - 1) cs
      else c # replaceEvery pat rep 0 cs)"

definition replaceAll_spec :: "string \<Rightarrow> string \<Rightarrow> string \<Rightarrow> string" where
  "replaceAll_spec s pat rep =
     (if pat = [] then concat (map (\<lambda>c. rep @ [c]) s) @ rep
      else replaceEvery pat rep 0 s)"

section \<open>A sample environment\<close>

text \<open>
  To run the model at concrete inputs: a platform that agrees with the builtins on the
  strings used below (the Base64 texts of \<^verbatim>\<open>a-a\<close>, \<^verbatim>\<open>b-a\<close>, \<^verbatim>\<open>hello\<close> and
  \<^verbatim>\<open>hi\<close>), and a hosting provider that keeps files in memory under their
  endpoints and checks the version token on writes and deletes.
\<close>

definition samplePlatform :: Platform where
  "samplePlatform =
     \<lparr>encodeURIComponent = (\<lambda>s. s),
      btoaUtf8 = (\<lambda>s. if s = ''a-a'' then ''YS1h''
                       else if s = ''b-a'' then ''Yi1h''
                       else if s = ''b-b'' then ''Yi1i''
                       else if s = ''hello'' then ''aGVsbG8=''
                       else if s = ''hi'' then ''aGk=''
                       else []),
      atobUtf8 = (\<lambda>s. if s = ''YS1h'' then Inr ''a-a''
                       else if s = ''Yi1h'' then Inr ''b-a''
                       else if s = ''aGVsbG8='' then Inr ''hello''
                       else if s = ''aGk='' then Inr ''hi''
                       else Inl ''URI malformed''),
      stringify = (\<lambda>j. case j of JList fs \<Rightarrow> ''[...]'' | _ \<Rightarrow> ''{...}'')\<rparr>"

definition storedFile :: "string \<Rightarrow> string option \<Rightarrow> GitHubFile" where
  "storedFile ep c =
     \<lparr>file_name = ep, file_path = ep, sha = ''sha-'' @ toStr c, file_type = ''file'', content = c\<rparr>"

definition memNet :: "(string \<times> GitHubFile) list Net" where
  "memNet req files =
     (let b = (case body req of None \<Rightarrow> [] | Some kvs \<Rightarrow> kvs);
          found = map_of files (endpoint req)
      in case http_method req of
           GET \<Rightarrow>
             (case found of
                None \<Rightarrow> (Inr \<lparr>http_status = 404, statusText = ''Not Found'', json = JOther\<rparr>, files)
              | Some f \<Rightarrow> (Inr \<lparr>http_status = 200, statusText = ''OK'', json = JFile f\<rparr>, files))
         | PUT \<Rightarrow>
             (case found of
                None \<Rightarrow>
                  (Inr \<lparr>http_status = 201, statusText = ''Created'', json = JOther\<rparr>,
                   (endpoint req, storedFile (endpoint req) (map_of b ''content'')) # files)
              | Some f \<Rightarrow>
                  if map_of b ''sha'' = Some (sha f) then
                    (Inr \<lparr>http_status = 200, statusText = ''OK'', json = JOther\<rparr>,
                     (endpoint req, storedFile (endpoint req) (map_of b ''content'')) # files)
                  else
                    (Inr \<lparr>http_status = 409, statusText = ''Conflict'', json = JOther\<rparr>, files))
         | DELETE \<Rightarrow>
             (case found of
                None \<Rightarrow> (Inr \<lparr>http_status = 404, statusText = ''Not Found'', json = JOther\<rparr>, files)
              | Some f \<Rightarrow>
                  if map_of b ''sha'' = Some (sha f) then
                    (Inr \<lparr>http_status = 200, statusText = ''OK'', json = JOther\<rparr>,
                     filter (\<lambda>entry. fst entry \<noteq> endpoint req) files)
                  else
                    (Inr \<lparr>http_status = 409, statusText = ''Conflict'', json = JOther\<rparr>, files)))"

text \<open>The same provider refusing every read with status 401.\<close>

definition lockedNet :: "(string \<times> GitHubFile) list Net" where
  "lockedNet req files =
     (if http_method req = GET
      then (Inr \<lparr>http_status = 401, statusText = ''Unauthorized'', json = JOther\<rparr>, files)
      else memNet req files)"

definition sampleContext :: AgentContextState where
  "sampleContext =
     \<lparr>activeTab = ''repos'',
      currentRepo = Some \<lparr>owner_login = ''octo'', repo_name = ''demo''\<rparr>,
      currentPath = Some [], currentFile = None, fileContent = None,
      currentSelection = None\<rparr>"

definition sampleAgent :: AgentState where
  "sampleAgent =
     \<lparr>isEnabled = True, messages = [], contextState = sampleContext,
      contextSettings = \<lparr>includeRepoMap = True, includeFileContent = True, includeSelection = True\<rparr>,
      pendingToolCall = None, isThinking = False, lastActionTimestamp = 0,
      selectedModel = ''gemini-3-pro-preview'',
      gemini = Some \<lparr>apiKey = ''key''\<rparr>, service = Some \<lparr>token = ''tok''\<rparr>\<rparr>"

definition sampleSystem :: "(string \<times> GitHubFile) list \<Rightarrow> (string \<times> GitHubFile) list System" where
  "sampleSystem files =
     \<lparr>agent = sampleAgent, world = \<lparr>remote = files, httpLog = []\<rparr>, engineLog = []\<rparr>"

definition sampleTool :: "string \<Rightarrow> (string \<times> string) list \<Rightarrow> ToolCall" where
  "sampleTool name a = \<lparr>tc_id = ''t1'', tc_name = name, args = a, status = pending\<rparr>"

definition sampleRnd :: "nat \<Rightarrow> string" where
  "sampleRnd k = ''0.5''"

definition sampleEndpoint :: string where
  "sampleEndpoint = ''/repos/octo/demo/contents/a.txt''"

definition sampleFiles :: "string \<Rightarrow> (string \<times> GitHubFile) list" where
  "sampleFiles c = [(sampleEndpoint, storedFile sampleEndpoint (Some c))]"

definition replaceTool :: ToolCall where
  "replaceTool =
     sampleTool ''replace_in_file''
       [(''path'', ''a.txt''), (''search'', ''a''), (''replace'', ''b''), (''message'', ''m'')]"

definition mismatchTool :: ToolCall where
  "mismatchTool =
     sampleTool ''replace_in_file''
       [(''path'', ''a.txt''), (''search'', ''hi''), (''replace'', ''bye''), (''message'', ''m'')]"

definition createTool :: ToolCall where
  "createTool =
     sampleTool ''create_or_update_file''
       [(''path'', ''a.txt''), (''content'', ''hi''), (''message'', ''add a'')]"

definition deleteTool :: ToolCall where
  "deleteTool = sampleTool ''delete_file'' [(''path'', ''a.txt''), (''message'', ''rm'')]"


text \<open>The provider after a first message, and after the engine has proposed a deletion.\<close>

definition thinkingSystem :: "(string \<times> GitHubFile) list System" where
  "thinkingSystem = sendMessage 1 ''a'' sampleAgent (sampleSystem (sampleFiles ''YS1h''))"

definition proposal :: EngineResponse where
  "proposal =
     [[\<lparr>part_text = None,
        functionCall = Some \<lparr>fc_name = ''delete_file'',
                              fc_args = [(''path'', ''a.txt''), (''message'', ''rm'')]\<rparr>\<rparr>]]"

definition proposedSystem :: "(string \<times> GitHubFile) list System" where
  "proposedSystem = engineSettled 3 sampleRnd (Inr proposal) thinkingSystem"

text \<open>A provider whose last mutation was stamped at the clock reading 1700000000000.\<close>

definition stampedSystem :: "(string \<times> GitHubFile) list System" where
  "stampedSystem =
     \<lparr>agent = sampleAgent\<lparr>lastActionTimestamp := 1700000000000\<rparr>,
      world = \<lparr>remote = sampleFiles ''YS1h'', httpLog = []\<rparr>, engineLog = []\<rparr>"




section \<open>Notions used to state the properties\<close>

definition toolsOf :: "ChatMessage \<Rightarrow> ToolCall list" where
  "toolsOf m = (case toolCalls m of None \<Rightarrow> [] | Some tcs \<Rightarrow> tcs)"

text \<open>The statuses of all tool invocations the provider holds.\<close>

definition statusesIn :: "AgentState \<Rightarrow> ToolStatus set" where
  "statusesIn a =
     (\<Union>m \<in> set (messages a). status ` set (toolsOf m))
     \<union> (case pendingToolCall a of None \<Rightarrow> {} | Some p \<Rightarrow> {status p})"

text \<open>The requests issued between two states of the system.\<close>

definition newRequests :: "'r System \<Rightarrow> 'r System \<Rightarrow> Request list" where
  "newRequests sys sys' = drop (length (httpLog (world sys))) (httpLog (world sys'))"


section \<open>Facts about the string primitives\<close>

lemma indexOf_Some_decomp:
  "indexOf s pat = Some i \<Longrightarrow>
     s = take i s @ pat @ drop (i + length pat) s \<and> i + length pat \<le> length s"
proof (induction s arbitrary: i)
  case Nil
  then show ?case by (simp split: if_splits)
next
  case (Cons c cs)
  show ?case
  proof (cases "take (length pat) (c # cs) = pat")
    case True
    with Cons.prems have i: "i = 0" by simp
    have "length (take (length pat) (c # cs)) = length pat"
      using True by simp
    then have "length pat \<le> length (c # cs)"
      by (simp del: take_Suc_Cons list.size)
    moreover have "c # cs = pat @ drop (length pat) (c # cs)"
      using True by (metis append_take_drop_id)
    ultimately show ?thesis using i by simp
  next
    case False
    with Cons.prems obtain j where j: "indexOf cs pat = Some j" "i = Suc j" by auto
    from Cons.IH[OF j(1)] show ?thesis using j(2) by simp
  qed
qed

lemma indexOf_None_no_occurrence:
  "indexOf s pat = None \<Longrightarrow> s \<noteq> pre @ pat @ post"
proof (induction s arbitrary: pre)
  case Nil
  then show ?case by (auto split: if_splits)
next
  case (Cons c cs)
  from Cons.prems have nt: "take (length pat) (c # cs) \<noteq> pat" and rest: "indexOf cs pat = None"
    by (auto split: if_splits)
  show ?case
  proof (cases pre)
    case Nil
    show ?thesis
    proof
      assume "c # cs = pre @ pat @ post"
      then have "c # cs = pat @ post" using Nil by simp
      then have "take (length pat) (c # cs) = pat" by simp
      with nt show False by simp
    qed
  next
    case (Cons p ps)
    show ?thesis
    proof
      assume "c # cs = pre @ pat @ post"
      then have "cs = ps @ pat @ post" using Cons by simp
      with Cons.IH[OF rest, of ps] show False by simp
    qed
  qed
qed

text \<open>\<open>str_includes\<close> holds exactly when the pattern occurs in the string.\<close>

lemma str_includes_iff: "str_includes s pat \<longleftrightarrow> (\<exists>pre post. s = pre @ pat @ post)"
proof
  assume "str_includes s pat"
  then obtain i where "indexOf s pat = Some i" by (auto simp: str_includes_def)
  from indexOf_Some_decomp[OF this] show "\<exists>pre post. s = pre @ pat @ post" by blast
next
  assume "\<exists>pre post. s = pre @ pat @ post"
  then show "str_includes s pat"
    unfolding str_includes_def using indexOf_None_no_occurrence by blast
qed

text \<open>What \<open>replace\<close> does: the first occurrence goes, and only that one.\<close>

lemma getSubstitution_literal:
  "CHR ''$'' \<notin> set rep \<Longrightarrow> getSubstitution matched preceding following rep = rep"
  by (induction matched preceding following rep rule: getSubstitution.induct) auto

lemma replace_first_occurrence:
  "indexOf s pat = Some i \<Longrightarrow> CHR ''$'' \<notin> set rep \<Longrightarrow>
     replace s pat rep = take i s @ rep @ drop (i + length pat) s"
  by (simp add: replace_def getSubstitution_literal)

lemma indexOf_least:
  "indexOf s pat = Some i \<Longrightarrow> j < i \<Longrightarrow> take (length pat) (drop j s) \<noteq> pat"
proof (induction s arbitrary: i j)
  case Nil
  then show ?case by (simp split: if_splits)
next
  case (Cons c cs)
  from Cons.prems have nt: "take (length pat) (c # cs) \<noteq> pat"
    by (auto split: if_splits)
  with Cons.prems obtain k where k: "indexOf cs pat = Some k" "i = Suc k"
    by (auto split: if_splits)
  show ?case
  proof (cases j)
    case 0
    then show ?thesis using nt by simp
  next
    case (Suc j')
    then have "j' < k" using Cons.prems(2) k(2) by simp
    from Cons.IH[OF k(1) this] show ?thesis using Suc by simp
  qed
qed

section \<open>Facts about the remote repository adapter\<close>

lemma service_fetch_world:
  "snd (service_fetch net svc m ep b w) =
     \<lparr>remote = snd (net (buildRequest svc m ep b) (remote w)),
      httpLog = httpLog w @ [buildRequest svc m ep b]\<rparr>"
  by (simp add: service_fetch_def Let_def split: prod.splits sum.splits)

lemma getRepoContents_world:
  "snd (getRepoContents pf net svc owner repo path w) =
     \<lparr>remote = snd (net (buildRequest svc GET (contentsEndpoint pf owner repo path) None) (remote w)),
      httpLog = httpLog w @ [buildRequest svc GET (contentsEndpoint pf owner repo path) None]\<rparr>"
  by (simp add: getRepoContents_def service_fetch_world)

lemma updateFile_world:
  "snd (updateFile pf net svc owner repo path c s msg w) =
     \<lparr>remote = snd (net (buildRequest svc PUT (contentsEndpoint pf owner repo path)
                  (Some (jsonField ''message'' msg @ [(''content'', btoaUtf8 pf (toStr c))]
                         @ (if truthy s then jsonField ''sha'' s else [])))) (remote w)),
      httpLog = httpLog w @ [buildRequest svc PUT (contentsEndpoint pf owner repo path)
                  (Some (jsonField ''message'' msg @ [(''content'', btoaUtf8 pf (toStr c))]
                         @ (if truthy s then jsonField ''sha'' s else [])))]\<rparr>"
  by (simp add: updateFile_def Let_def service_fetch_world)

lemma endpoint_buildRequest [simp]: "endpoint (buildRequest svc m ep b) = ep"
  by (simp add: buildRequest_def)

lemma http_method_buildRequest [simp]: "http_method (buildRequest svc m ep b) = m"
  by (simp add: buildRequest_def)

lemma body_buildRequest [simp]: "body (buildRequest svc m ep b) = b"
  by (simp add: buildRequest_def)







section \<open>The branches of the tool execution adapter\<close>

lemma tryTool_list_files:
  "tryTool pf net now svc ''list_files'' a owner repo path sys =
     (case getRepoContents pf net svc owner repo path (world sys) of
        (Inl e, w) \<Rightarrow> (Inl e, sys\<lparr>world := w\<rparr>)
      | (Inr files, w) \<Rightarrow> (Inr (stringify pf files), sys\<lparr>world := w\<rparr>))"
  by (simp add: tryTool_def)

lemma tryTool_read_file:
  "tryTool pf net now svc ''read_file'' a owner repo path sys =
     (case getRepoContents pf net svc owner repo path (world sys) of
        (Inl e, w) \<Rightarrow> (Inl e, sys\<lparr>world := w\<rparr>)
      | (Inr found, w) \<Rightarrow>
          if truthy (json_content found) then
            (case atobUtf8 pf (stripSpace (toStr (json_content found))) of
               Inl e \<Rightarrow> (Inl e, sys\<lparr>world := w\<rparr>)
             | Inr decoded \<Rightarrow> (Inr decoded, sys\<lparr>world := w\<rparr>))
          else (Inr ''File is empty or a directory.'', sys\<lparr>world := w\<rparr>))"
  by (simp add: tryTool_def)

lemma tryTool_create_or_update_file:
  "tryTool pf net now svc ''create_or_update_file'' a owner repo path sys =
     (let (sha_found, w1) =
            (case getRepoContents pf net svc owner repo path (world sys) of
               (Inl e, w) \<Rightarrow> (None, w)
             | (Inr existing, w) \<Rightarrow>
                 (if truthy (json_sha existing) then json_sha existing else None, w))
      in case updateFile pf net svc owner repo path (map_of a ''content'') sha_found
                (map_of a ''message'') w1 of
           (Inl e, w2) \<Rightarrow> (Inl e, sys\<lparr>world := w2\<rparr>)
         | (Inr done, w2) \<Rightarrow>
             (Inr ''Success: File created/updated.'',
              setLastActionTimestamp now (sys\<lparr>world := w2\<rparr>)))"
  by (simp add: tryTool_def)

lemma tryTool_replace_in_file:
  "tryTool pf net now svc ''replace_in_file'' a owner repo path sys =
     (case getRepoContents pf net svc owner repo path (world sys) of
        (Inl e, w1) \<Rightarrow> (Inl e, sys\<lparr>world := w1\<rparr>)
      | (Inr fileObj, w1) \<Rightarrow>
          if \<not> truthy (json_content fileObj) then
            (Inl ''File is empty or not found'', sys\<lparr>world := w1\<rparr>)
          else
            (case atobUtf8 pf (stripSpace (toStr (json_content fileObj))) of
               Inl e \<Rightarrow> (Inl e, sys\<lparr>world := w1\<rparr>)
             | Inr currentContent \<Rightarrow>
                 if \<not> str_includes currentContent (toStr (map_of a ''search'')) then
                   (Inl patchMismatch, sys\<lparr>world := w1\<rparr>)
                 else
                   (let newContent = replace currentContent (toStr (map_of a ''search''))
                                       (toStr (map_of a ''replace''))
                    in case updateFile pf net svc owner repo path (Some newContent)
                              (json_sha fileObj) (map_of a ''message'') w1 of
                         (Inl e, w2) \<Rightarrow> (Inl e, sys\<lparr>world := w2\<rparr>)
                       | (Inr done, w2) \<Rightarrow>
                           (Inr ''Success: Content replaced.'',
                            setLastActionTimestamp now (sys\<lparr>world := w2\<rparr>)))))"
  by (simp add: tryTool_def)

lemma tryTool_delete_file:
  "tryTool pf net now svc ''delete_file'' a owner repo path sys =
     (case deleteFile pf net svc owner repo path (map_of a ''message'') None (world sys) of
        (Inl e, w) \<Rightarrow> (Inl e, sys\<lparr>world := w\<rparr>)
      | (Inr done, w) \<Rightarrow>
          (Inr ''Success: File deleted.'', setLastActionTimestamp now (sys\<lparr>world := w\<rparr>)))"
  by (simp add: tryTool_def)

lemma tryTool_unknown:
  "name \<noteq> ''list_files'' \<Longrightarrow> name \<noteq> ''read_file'' \<Longrightarrow> name \<noteq> ''create_or_update_file'' \<Longrightarrow>
   name \<noteq> ''replace_in_file'' \<Longrightarrow> name \<noteq> ''delete_file'' \<Longrightarrow>
   tryTool pf net now svc name a owner repo path sys = (Inr ''Error: Unknown tool.'', sys)"
  by (simp add: tryTool_def)

section \<open>Context scoper\<close>

text \<open>
  Claim C8. The context projection is a function of the context state and the disclosure
  policy alone. It always holds the active view; it holds the current repository and the
  current path exactly when \<open>includeRepoMap\<close> is set, the current file and the file
  content exactly when \<open>includeFileContent\<close> is set, and the current selection exactly
  when \<open>includeSelection\<close> is set, each with the value the context state has for it.
  Turning one flag off gives the same projection without the properties of that flag, and
  changes nothing else.
\<close>

theorem getFilteredContext_projection:
  "getFilteredContext cs st ''activeTab'' = Some (Str (activeTab cs))
   \<and> getFilteredContext cs st ''currentRepo''
       = (if includeRepoMap st then Some (repoValue (currentRepo cs)) else None)
   \<and> getFilteredContext cs st ''currentPath''
       = (if includeRepoMap st then Some (strValue (currentPath cs)) else None)
   \<and> getFilteredContext cs st ''currentFile''
       = (if includeFileContent st then Some (fileValue (currentFile cs)) else None)
   \<and> getFilteredContext cs st ''fileContent''
       = (if includeFileContent st then Some (strValue (fileContent cs)) else None)
   \<and> getFilteredContext cs st ''currentSelection''
       = (if includeSelection st then Some (strValue (currentSelection cs)) else None)
   \<and> dom (getFilteredContext cs st)
       = {''activeTab''}
         \<union> (if includeRepoMap st then {''currentRepo'', ''currentPath''} else {})
         \<union> (if includeFileContent st then {''currentFile'', ''fileContent''} else {})
         \<union> (if includeSelection st then {''currentSelection''} else {})
   \<and> getFilteredContext cs (st\<lparr>includeRepoMap := False\<rparr>)
       = getFilteredContext cs st |` (- {''currentRepo'', ''currentPath''})
   \<and> getFilteredContext cs (st\<lparr>includeFileContent := False\<rparr>)
       = getFilteredContext cs st |` (- {''currentFile'', ''fileContent''})
   \<and> getFilteredContext cs (st\<lparr>includeSelection := False\<rparr>)
       = getFilteredContext cs st |` (- {''currentSelection''})"
proof -
  have entries:
    "getFilteredContext cs st ''activeTab'' = Some (Str (activeTab cs))"
    "getFilteredContext cs st ''currentRepo''
       = (if includeRepoMap st then Some (repoValue (currentRepo cs)) else None)"
    "getFilteredContext cs st ''currentPath''
       = (if includeRepoMap st then Some (strValue (currentPath cs)) else None)"
    "getFilteredContext cs st ''currentFile''
       = (if includeFileContent st then Some (fileValue (currentFile cs)) else None)"
    "getFilteredContext cs st ''fileContent''
       = (if includeFileContent st then Some (strValue (fileContent cs)) else None)"
    "getFilteredContext cs st ''currentSelection''
       = (if includeSelection st then Some (strValue (currentSelection cs)) else None)"
    by (simp_all add: getFilteredContext_def Let_def)
  have keys:
    "dom (getFilteredContext cs st)
       = {''activeTab''}
         \<union> (if includeRepoMap st then {''currentRepo'', ''currentPath''} else {})
         \<union> (if includeFileContent st then {''currentFile'', ''fileContent''} else {})
         \<union> (if includeSelection st then {''currentSelection''} else {})"
    by (auto simp: getFilteredContext_def Let_def)
  have repo_off:
    "getFilteredContext cs (st\<lparr>includeRepoMap := False\<rparr>)
       = getFilteredContext cs st |` (- {''currentRepo'', ''currentPath''})"
    by (rule ext) (simp add: getFilteredContext_def Let_def restrict_map_def)
  have file_off:
    "getFilteredContext cs (st\<lparr>includeFileContent := False\<rparr>)
       = getFilteredContext cs st |` (- {''currentFile'', ''fileContent''})"
    by (rule ext) (simp add: getFilteredContext_def Let_def restrict_map_def)
  have selection_off:
    "getFilteredContext cs (st\<lparr>includeSelection := False\<rparr>)
       = getFilteredContext cs st |` (- {''currentSelection''})"
    by (rule ext) (simp add: getFilteredContext_def Let_def restrict_map_def)
  from entries keys repo_off file_off selection_off show ?thesis by blast
qed

section \<open>History serialization\<close>

text \<open>
  Claim C6, as the code has it. Every turn of the history is serialized, in order: the
  serialized history has one entry for each turn, and the entry of a system turn is a
  user-role entry whose single part is the text of that turn (the empty text if it has
  none). So the text of a system turn is sent to the reasoning engine.
\<close>

theorem getGeminiHistory_keeps_system_turns:
  "length (getGeminiHistory msgs) = length msgs
   \<and> (\<forall>i < length msgs. role (msgs ! i) = RoleSystem \<longrightarrow>
         getGeminiHistory msgs ! i
           = \<lparr>c_role = ''user'',
              parts = [TextPart (case msg_text (msgs ! i) of None \<Rightarrow> [] | Some t \<Rightarrow> t)]\<rparr>)"
  by (auto simp: getGeminiHistory_def historyEntry_def js_or_def truthy_def toStr_def
           split: option.splits)

theorem getGeminiHistory_keeps_system_turns_witness:
  "getGeminiHistory [systemMessage 4 cancelled, systemMessage 5 missingKey] ! 1
     = \<lparr>c_role = ''user'', parts = [TextPart missingKey]\<rparr>"
  using getGeminiHistory_keeps_system_turns [of "[systemMessage 4 cancelled, systemMessage 5 missingKey]"]
  by (simp add: systemMessage_def)

text \<open>
  The claim as stated fails: the notice of a cancellation comes out of the serialization
  as a user-role text part.
\<close>

theorem getGeminiHistory_system_turn_counterexample:
  "getGeminiHistory [systemMessage 4 ''Tool execution cancelled by user.'']
     = [\<lparr>c_role = ''user'', parts = [TextPart ''Tool execution cancelled by user.'']\<rparr>]"
  by (simp add: getGeminiHistory_def historyEntry_def systemMessage_def js_or_def truthy_def
        toStr_def)

section \<open>Rejection\<close>

text \<open>
  Claim C9. \<open>rejectToolCall\<close> makes no call to the remote repository adapter: the remote
  state and the log of requests are as before, and so are the requests to the engine and
  the mutation timestamp. It clears the pending call and appends the system turn that
  notes the cancellation. The rejected invocation cannot be executed afterwards either:
  approving from the state that results does nothing.
\<close>

theorem rejectToolCall_no_remote_call:
  "world (rejectToolCall now sys) = world sys
   \<and> engineLog (rejectToolCall now sys) = engineLog sys
   \<and> lastActionTimestamp (agent (rejectToolCall now sys)) = lastActionTimestamp (agent sys)
   \<and> pendingToolCall (agent (rejectToolCall now sys)) = None
   \<and> messages (agent (rejectToolCall now sys))
       = messages (agent sys) @ [systemMessage now cancelled]
   \<and> approveToolCall pf net tExec tDone (agent (rejectToolCall now sys)) (rejectToolCall now sys)
       = rejectToolCall now sys"
  by (simp add: rejectToolCall_def setMessages_def setPendingToolCall_def approveToolCall_def
        approveToolCall_begin_def approveToolCall_execute_def)

section \<open>Sending while a round trip is in progress\<close>

lemma sendMessage_ignores_progress:
  "sendMessage now txt (snap\<lparr>isThinking := b, pendingToolCall := p\<rparr>) sys
     = sendMessage now txt snap sys"
  by (simp add: sendMessage_def)

text \<open>
  Claim C2, evaluated on the code. After a first message the provider is thinking, with
  one user turn and one request to the engine. A second \<open>sendMessage\<close> in that state
  is not a no-op: it appends a second user turn and sends a second request. The same
  happens while a proposed tool call awaits approval.
\<close>

theorem sendMessage_while_thinking:
  "isThinking (agent thinkingSystem)
   \<and> map role (messages (agent thinkingSystem)) = [RoleUser]
   \<and> length (engineLog thinkingSystem) = 1
   \<and> map role (messages (agent (sendMessage 2 ''b'' (agent thinkingSystem) thinkingSystem)))
       = [RoleUser, RoleUser]
   \<and> length (engineLog (sendMessage 2 ''b'' (agent thinkingSystem) thinkingSystem)) = 2
   \<and> pendingToolCall (agent proposedSystem) \<noteq> None
   \<and> map role (messages (agent (sendMessage 4 ''c'' (agent proposedSystem) proposedSystem)))
       = [RoleUser, RoleModel, RoleUser]
   \<and> length (engineLog (sendMessage 4 ''c'' (agent proposedSystem) proposedSystem)) = 2"
  by (simp add: thinkingSystem_def proposedSystem_def proposal_def sendMessage_def
        engineSettled_def processModelResponse_def collectPart_def sampleAgent_def
        sampleSystem_def setMessages_def setIsThinking_def setPendingToolCall_def Let_def)

text \<open>Each of the two calls appended a user turn and sent a request.\<close>

theorem sendMessage_while_thinking_witness:
  "length (messages (agent (sendMessage 2 ''b'' (agent thinkingSystem) thinkingSystem)))
     = Suc (length (messages (agent thinkingSystem)))
   \<and> length (engineLog (sendMessage 2 ''b'' (agent thinkingSystem) thinkingSystem))
       = Suc (length (engineLog thinkingSystem))"
proof -
  note evaluated = sendMessage_while_thinking
  from evaluated
  have "map role (messages (agent (sendMessage 2 ''b'' (agent thinkingSystem) thinkingSystem)))
          = [RoleUser, RoleUser]"
    by simp
  then have "length (map role (messages (agent (sendMessage 2 ''b'' (agent thinkingSystem)
                                                  thinkingSystem))))
               = length [RoleUser, RoleUser]"
    by (rule arg_cong)
  then have two: "length (messages (agent (sendMessage 2 ''b'' (agent thinkingSystem)
                                             thinkingSystem))) = 2"
    by simp
  from evaluated have "map role (messages (agent thinkingSystem)) = [RoleUser]"
    by simp
  then have "length (map role (messages (agent thinkingSystem))) = length [RoleUser]"
    by (rule arg_cong)
  then have one: "length (messages (agent thinkingSystem)) = 1"
    by simp
  from evaluated two one show ?thesis by simp
qed

section \<open>Tool execution: patches\<close>

text \<open>
  Claim C1, evaluated on the code. The remote file holds \<^verbatim>\<open>a-a\<close>; the invocation asks
  to replace \<^verbatim>\<open>a\<close> by \<^verbatim>\<open>b\<close>. Execution succeeds and writes \<^verbatim>\<open>b-a\<close>: only the first
  occurrence is replaced, where replacing every occurrence gives \<^verbatim>\<open>b-b\<close>.
\<close>

theorem replace_in_file_first_occurrence_only:
  "fst (executeTool samplePlatform memNet 7 replaceTool sampleAgent
          (sampleSystem (sampleFiles ''YS1h'')))
     = ''Success: Content replaced.''
   \<and> newRequests (sampleSystem (sampleFiles ''YS1h''))
         (snd (executeTool samplePlatform memNet 7 replaceTool sampleAgent
                 (sampleSystem (sampleFiles ''YS1h''))))
       = [buildRequest \<lparr>token = ''tok''\<rparr> GET sampleEndpoint None,
          buildRequest \<lparr>token = ''tok''\<rparr> PUT sampleEndpoint
            (Some [(''message'', ''m''), (''content'', ''Yi1h''), (''sha'', ''sha-YS1h'')])]
   \<and> atobUtf8 samplePlatform ''YS1h'' = Inr ''a-a''
   \<and> atobUtf8 samplePlatform ''Yi1h'' = Inr ''b-a''
   \<and> replace ''a-a'' ''a'' ''b'' = ''b-a''
   \<and> replaceAll_spec ''a-a'' ''a'' ''b'' = ''b-b''"
proof -
  have dec: "atobUtf8 samplePlatform ''YS1h'' = Inr ''a-a''"
    "atobUtf8 samplePlatform ''Yi1h'' = Inr ''b-a''"
    "btoaUtf8 samplePlatform ''b-a'' = ''Yi1h''"
    by (simp_all add: samplePlatform_def)
  have rep: "replace ''a-a'' ''a'' ''b'' = ''b-a''"
    by (simp add: replace_def)
  have inc: "str_includes ''a-a'' ''a''"
    by (simp add: str_includes_def)
  have spec: "replaceAll_spec ''a-a'' ''a'' ''b'' = ''b-b''"
    by (simp add: replaceAll_spec_def)
  have ep: "contentsEndpoint samplePlatform ''octo'' ''demo'' ''a.txt'' = sampleEndpoint"
    by (simp add: contentsEndpoint_def encodePath_def samplePlatform_def sampleEndpoint_def)
  have run:
    "executeTool samplePlatform memNet 7 replaceTool sampleAgent
       (sampleSystem (sampleFiles ''YS1h''))
     = (''Success: Content replaced.'',
        setLastActionTimestamp 7
          ((sampleSystem (sampleFiles ''YS1h''))
             \<lparr>world := \<lparr>remote = (sampleEndpoint, storedFile sampleEndpoint (Some ''Yi1h''))
                                   # sampleFiles ''YS1h'',
                         httpLog = [buildRequest \<lparr>token = ''tok''\<rparr> GET sampleEndpoint None,
                                    buildRequest \<lparr>token = ''tok''\<rparr> PUT sampleEndpoint
                                      (Some [(''message'', ''m''), (''content'', ''Yi1h''),
                                             (''sha'', ''sha-YS1h'')])]\<rparr>\<rparr>))"
    by (simp add: executeTool_def tryTool_def replaceTool_def sampleTool_def sampleAgent_def
          sampleContext_def sampleSystem_def sampleFiles_def resolveOwner_def resolveRepo_def
          resolvePath_def js_or_def truthy_def toStr_def ep getRepoContents_def updateFile_def
          service_fetch_def memNet_def storedFile_def ok_def json_content_def json_sha_def
          jsonField_def stripSpace_def isSpace_def dec rep inc Let_def)
  have log: "newRequests (sampleSystem (sampleFiles ''YS1h''))
         (snd (executeTool samplePlatform memNet 7 replaceTool sampleAgent
                 (sampleSystem (sampleFiles ''YS1h''))))
       = [buildRequest \<lparr>token = ''tok''\<rparr> GET sampleEndpoint None,
          buildRequest \<lparr>token = ''tok''\<rparr> PUT sampleEndpoint
            (Some [(''message'', ''m''), (''content'', ''Yi1h''), (''sha'', ''sha-YS1h'')])]"
    unfolding run by (simp add: newRequests_def setLastActionTimestamp_def sampleSystem_def)
  from run log dec rep spec show ?thesis by simp
qed

text \<open>What was written is not the content with every occurrence replaced.\<close>

theorem replace_in_file_first_occurrence_only_witness:
  "last (newRequests (sampleSystem (sampleFiles ''YS1h''))
           (snd (executeTool samplePlatform memNet 7 replaceTool sampleAgent
                   (sampleSystem (sampleFiles ''YS1h'')))))
     = buildRequest \<lparr>token = ''tok''\<rparr> PUT sampleEndpoint
         (Some [(''message'', ''m''), (''content'', ''Yi1h''), (''sha'', ''sha-YS1h'')])
   \<and> btoaUtf8 samplePlatform (replaceAll_spec ''a-a'' ''a'' ''b'') = ''Yi1i''"
  using replace_in_file_first_occurrence_only by (simp add: samplePlatform_def)

text \<open>
  Claim C4, as the code has it. When \<open>replace_in_file\<close> has read the file, there are
  three ways in which execution fails before anything is written. If the content read is
  not empty and decodes as text, and the search text does not occur in it, execution
  returns the patch-mismatch error. If the content read is not empty and does not decode,
  execution returns the error of the decoder, without looking for the search text. If
  the content read is empty, execution returns the error
  \<^verbatim>\<open>File is empty or not found\<close>, again without looking for the search text. In all
  three cases the read is the only request made: nothing is written, the remote state is
  what the read left, and the provider's state, its mutation timestamp included, is
  unchanged.
\<close>

theorem replace_in_file_mismatch:
  assumes svc: "service snap = Some svc"
    and owner: "resolveOwner (args tool) (contextState snap) = Some owner" "owner \<noteq> []"
    and repo: "resolveRepo (args tool) (contextState snap) = Some repo" "repo \<noteq> []"
    and path: "resolvePath (args tool) (contextState snap) = path"
    and name: "tc_name tool = ''replace_in_file''"
    and rd: "getRepoContents pf net svc owner repo path (world sys) = (Inr fileObj, w1)"
  shows "(truthy (json_content fileObj) \<longrightarrow>
          atobUtf8 pf (stripSpace (toStr (json_content fileObj))) = Inr currentContent \<longrightarrow>
          (\<nexists>pre post. currentContent = pre @ toStr (map_of (args tool) ''search'') @ post) \<longrightarrow>
          executeTool pf net now tool snap sys
            = (''Error: '' @ patchMismatch, sys\<lparr>world := w1\<rparr>))
    \<and> (truthy (json_content fileObj) \<longrightarrow>
          atobUtf8 pf (stripSpace (toStr (json_content fileObj))) = Inl e \<longrightarrow>
          executeTool pf net now tool snap sys = (''Error: '' @ e, sys\<lparr>world := w1\<rparr>))
    \<and> (\<not> truthy (json_content fileObj) \<longrightarrow>
          executeTool pf net now tool snap sys
            = (''Error: File is empty or not found'', sys\<lparr>world := w1\<rparr>))
    \<and> httpLog w1 = httpLog (world sys)
          @ [buildRequest svc GET (contentsEndpoint pf owner repo path) None]
    \<and> remote w1
        = snd (net (buildRequest svc GET (contentsEndpoint pf owner repo path) None)
                 (remote (world sys)))"
proof -
  have mismatch: "truthy (json_content fileObj) \<longrightarrow>
          atobUtf8 pf (stripSpace (toStr (json_content fileObj))) = Inr currentContent \<longrightarrow>
          (\<nexists>pre post. currentContent = pre @ toStr (map_of (args tool) ''search'') @ post) \<longrightarrow>
          executeTool pf net now tool snap sys
            = (''Error: '' @ patchMismatch, sys\<lparr>world := w1\<rparr>)"
  proof (intro impI)
    assume nonempty: "truthy (json_content fileObj)"
      and dec: "atobUtf8 pf (stripSpace (toStr (json_content fileObj))) = Inr currentContent"
      and absent: "\<nexists>pre post. currentContent = pre @ toStr (map_of (args tool) ''search'') @ post"
    have absent': "\<not> str_includes currentContent (toStr (map_of (args tool) ''search''))"
      using absent by (simp add: str_includes_iff)
    show "executeTool pf net now tool snap sys
            = (''Error: '' @ patchMismatch, sys\<lparr>world := w1\<rparr>)"
      using svc owner repo path name rd nonempty dec absent'
      by (simp add: executeTool_def tryTool_replace_in_file Let_def truthy_def toStr_def)
  qed
  have undecodable: "truthy (json_content fileObj) \<longrightarrow>
          atobUtf8 pf (stripSpace (toStr (json_content fileObj))) = Inl e \<longrightarrow>
          executeTool pf net now tool snap sys = (''Error: '' @ e, sys\<lparr>world := w1\<rparr>)"
  proof (intro impI)
    assume nonempty: "truthy (json_content fileObj)"
      and dec: "atobUtf8 pf (stripSpace (toStr (json_content fileObj))) = Inl e"
    have "tryTool pf net now svc ''replace_in_file'' (args tool) owner repo path sys
            = (Inl e, sys\<lparr>world := w1\<rparr>)"
      using rd nonempty dec by (simp add: tryTool_replace_in_file)
    then show "executeTool pf net now tool snap sys = (''Error: '' @ e, sys\<lparr>world := w1\<rparr>)"
      using svc owner repo path name
      by (simp add: executeTool_def Let_def truthy_def toStr_def)
  qed
  have empty: "\<not> truthy (json_content fileObj) \<longrightarrow>
          executeTool pf net now tool snap sys
            = (''Error: File is empty or not found'', sys\<lparr>world := w1\<rparr>)"
  proof
    assume none: "\<not> truthy (json_content fileObj)"
    have "tryTool pf net now svc ''replace_in_file'' (args tool) owner repo path sys
            = (Inl ''File is empty or not found'', sys\<lparr>world := w1\<rparr>)"
      using rd none by (simp add: tryTool_replace_in_file)
    then show "executeTool pf net now tool snap sys
            = (''Error: File is empty or not found'', sys\<lparr>world := w1\<rparr>)"
      using svc owner repo path name
      by (simp add: executeTool_def Let_def truthy_def toStr_def)
  qed
  have "w1 = snd (getRepoContents pf net svc owner repo path (world sys))"
    using rd by simp
  then have w1: "w1 = \<lparr>remote = snd (net (buildRequest svc GET (contentsEndpoint pf owner repo path) None)
                                     (remote (world sys))),
                        httpLog = httpLog (world sys)
                          @ [buildRequest svc GET (contentsEndpoint pf owner repo path) None]\<rparr>"
    by (simp add: getRepoContents_world)
  have log: "httpLog w1 = httpLog (world sys)
          @ [buildRequest svc GET (contentsEndpoint pf owner repo path) None]"
    by (subst w1) simp
  have rem: "remote w1
        = snd (net (buildRequest svc GET (contentsEndpoint pf owner repo path) None)
                 (remote (world sys)))"
    by (subst w1) simp
  from mismatch undecodable empty log rem show ?thesis by blast
qed

text \<open>
  The third scenario of the specification: the remote content is \<^verbatim>\<open>hello\<close>, the search
  text is \<^verbatim>\<open>hi\<close>. And a file whose single byte \<^verbatim>\<open>0xFF\<close> (Base64 \<^verbatim>\<open>/w==\<close>) is not
  valid UTF-8: the decoder's error is the result.
\<close>

theorem replace_in_file_mismatch_witness:
  "executeTool samplePlatform memNet 7 mismatchTool sampleAgent
     (sampleSystem (sampleFiles ''aGVsbG8=''))
   = (''Error: '' @ patchMismatch,
      (sampleSystem (sampleFiles ''aGVsbG8=''))
        \<lparr>world := \<lparr>remote = sampleFiles ''aGVsbG8='',
                    httpLog = [buildRequest \<lparr>token = ''tok''\<rparr> GET sampleEndpoint None]\<rparr>\<rparr>)
   \<and> executeTool samplePlatform memNet 7 mismatchTool sampleAgent
       (sampleSystem (sampleFiles ''/w==''))
     = (''Error: URI malformed'',
        (sampleSystem (sampleFiles ''/w==''))
          \<lparr>world := \<lparr>remote = sampleFiles ''/w=='',
                      httpLog = [buildRequest \<lparr>token = ''tok''\<rparr> GET sampleEndpoint None]\<rparr>\<rparr>)"
proof -
  have svc: "service sampleAgent = Some \<lparr>token = ''tok''\<rparr>"
    by (simp add: sampleAgent_def)
  have owner: "resolveOwner (args mismatchTool) (contextState sampleAgent) = Some ''octo''"
    by (simp add: resolveOwner_def mismatchTool_def sampleTool_def sampleAgent_def
          sampleContext_def js_or_def truthy_def)
  have repo: "resolveRepo (args mismatchTool) (contextState sampleAgent) = Some ''demo''"
    by (simp add: resolveRepo_def mismatchTool_def sampleTool_def sampleAgent_def
          sampleContext_def js_or_def truthy_def)
  have path: "resolvePath (args mismatchTool) (contextState sampleAgent) = ''a.txt''"
    by (simp add: resolvePath_def mismatchTool_def sampleTool_def sampleAgent_def
          sampleContext_def js_or_def truthy_def toStr_def)
  have name: "tc_name mismatchTool = ''replace_in_file''"
    by (simp add: mismatchTool_def sampleTool_def)
  have ep: "contentsEndpoint samplePlatform ''octo'' ''demo'' ''a.txt'' = sampleEndpoint"
    by (simp add: contentsEndpoint_def encodePath_def samplePlatform_def sampleEndpoint_def)
  have rd: "getRepoContents samplePlatform memNet \<lparr>token = ''tok''\<rparr> ''octo'' ''demo'' ''a.txt''
              (world (sampleSystem (sampleFiles c)))
            = (Inr (JFile (storedFile sampleEndpoint (Some c))),
               \<lparr>remote = sampleFiles c,
                httpLog = [buildRequest \<lparr>token = ''tok''\<rparr> GET sampleEndpoint None]\<rparr>)" for c
    by (simp add: getRepoContents_def service_fetch_def ep memNet_def sampleSystem_def
          sampleFiles_def ok_def Let_def)
  have nonempty: "truthy (json_content (JFile (storedFile sampleEndpoint (Some ''aGVsbG8=''))))"
    "truthy (json_content (JFile (storedFile sampleEndpoint (Some ''/w==''))))"
    by (simp_all add: json_content_def storedFile_def truthy_def)
  have dec: "atobUtf8 samplePlatform
               (stripSpace (toStr (json_content (JFile (storedFile sampleEndpoint (Some ''aGVsbG8=''))))))
             = Inr ''hello''"
    by (simp add: json_content_def storedFile_def toStr_def stripSpace_def isSpace_def
          samplePlatform_def)
  have bad: "atobUtf8 samplePlatform
               (stripSpace (toStr (json_content (JFile (storedFile sampleEndpoint (Some ''/w==''))))))
             = Inl ''URI malformed''"
    by (simp add: json_content_def storedFile_def toStr_def stripSpace_def isSpace_def
          samplePlatform_def)
  have "\<not> str_includes ''hello'' ''hi''"
    by (simp add: str_includes_def)
  then have absent: "\<nexists>pre post. ''hello'' = pre @ toStr (map_of (args mismatchTool) ''search'') @ post"
    by (simp add: str_includes_iff mismatchTool_def sampleTool_def toStr_def)
  from replace_in_file_mismatch [OF svc owner _ repo _ path name rd,
         where currentContent = "''hello''" and now = 7]
    nonempty dec absent
  have first: "executeTool samplePlatform memNet 7 mismatchTool sampleAgent
     (sampleSystem (sampleFiles ''aGVsbG8=''))
   = (''Error: '' @ patchMismatch,
      (sampleSystem (sampleFiles ''aGVsbG8=''))
        \<lparr>world := \<lparr>remote = sampleFiles ''aGVsbG8='',
                    httpLog = [buildRequest \<lparr>token = ''tok''\<rparr> GET sampleEndpoint None]\<rparr>\<rparr>)"
    by simp
  from replace_in_file_mismatch [OF svc owner _ repo _ path name rd,
         where e = "''URI malformed''" and now = 7]
    nonempty bad
  have second: "executeTool samplePlatform memNet 7 mismatchTool sampleAgent
       (sampleSystem (sampleFiles ''/w==''))
     = (''Error: URI malformed'',
        (sampleSystem (sampleFiles ''/w==''))
          \<lparr>world := \<lparr>remote = sampleFiles ''/w=='',
                      httpLog = [buildRequest \<lparr>token = ''tok''\<rparr> GET sampleEndpoint None]\<rparr>\<rparr>)"
    by simp
  from first second show ?thesis by simp
qed

text \<open>
  The claim as stated fails: the remote file is empty, so the search text \<^verbatim>\<open>hi\<close> does
  not occur in its content, and the error returned is not the patch-mismatch message.
\<close>

theorem replace_in_file_empty_counterexample:
  "\<not> str_includes [] (toStr (map_of (args mismatchTool) ''search''))
   \<and> executeTool samplePlatform memNet 7 mismatchTool sampleAgent (sampleSystem (sampleFiles []))
       = (''Error: File is empty or not found'',
          (sampleSystem (sampleFiles []))
            \<lparr>world := \<lparr>remote = sampleFiles [],
                        httpLog = [buildRequest \<lparr>token = ''tok''\<rparr> GET sampleEndpoint None]\<rparr>\<rparr>)"
proof -
  have ep: "contentsEndpoint samplePlatform ''octo'' ''demo'' ''a.txt'' = sampleEndpoint"
    by (simp add: contentsEndpoint_def encodePath_def samplePlatform_def sampleEndpoint_def)
  have absent: "\<not> str_includes [] (toStr (map_of (args mismatchTool) ''search''))"
    by (simp add: str_includes_def mismatchTool_def sampleTool_def toStr_def)
  have rd: "getRepoContents samplePlatform memNet \<lparr>token = ''tok''\<rparr> ''octo'' ''demo'' ''a.txt''
              (world (sampleSystem (sampleFiles [])))
            = (Inr (JFile (storedFile sampleEndpoint (Some []))),
               \<lparr>remote = sampleFiles [],
                httpLog = [buildRequest \<lparr>token = ''tok''\<rparr> GET sampleEndpoint None]\<rparr>)"
    by (simp add: getRepoContents_def service_fetch_def ep memNet_def sampleSystem_def
          sampleFiles_def ok_def Let_def)
  have "executeTool samplePlatform memNet 7 mismatchTool sampleAgent (sampleSystem (sampleFiles []))
       = (''Error: File is empty or not found'',
          (sampleSystem (sampleFiles []))
            \<lparr>world := \<lparr>remote = sampleFiles [],
                        httpLog = [buildRequest \<lparr>token = ''tok''\<rparr> GET sampleEndpoint None]\<rparr>\<rparr>)"
    by (simp add: executeTool_def mismatchTool_def sampleTool_def sampleAgent_def
          sampleContext_def resolveOwner_def resolveRepo_def resolvePath_def js_or_def
          truthy_def toStr_def tryTool_replace_in_file rd json_content_def storedFile_def)
  with absent show ?thesis by simp
qed

section \<open>Tool execution: creating or updating a file\<close>

text \<open>
  Claim C10. In \<open>create_or_update_file\<close>, when the read that probes for an existing file
  fails, whatever the error, execution goes on as if the file were absent: the write is
  issued with no version token in its body, and the result is decided by that write
  alone. The error of the read appears nowhere in the outcome.
\<close>

theorem create_or_update_file_swallows_read_failure:
  assumes svc: "service snap = Some svc"
    and owner: "resolveOwner (args tool) (contextState snap) = Some owner" "owner \<noteq> []"
    and repo: "resolveRepo (args tool) (contextState snap) = Some repo" "repo \<noteq> []"
    and path: "resolvePath (args tool) (contextState snap) = path"
    and name: "tc_name tool = ''create_or_update_file''"
    and rd: "getRepoContents pf net svc owner repo path (world sys) = (Inl e, w1)"
  shows "executeTool pf net now tool snap sys
         = (case updateFile pf net svc owner repo path (map_of (args tool) ''content'') None
                   (map_of (args tool) ''message'') w1 of
              (Inl e', w2) \<Rightarrow> (''Error: '' @ e', sys\<lparr>world := w2\<rparr>)
            | (Inr done, w2) \<Rightarrow>
                (''Success: File created/updated.'',
                 setLastActionTimestamp now (sys\<lparr>world := w2\<rparr>)))
    \<and> httpLog (world (snd (executeTool pf net now tool snap sys)))
        = httpLog w1
          @ [buildRequest svc PUT (contentsEndpoint pf owner repo path)
               (Some (jsonField ''message'' (map_of (args tool) ''message'')
                      @ [(''content'', btoaUtf8 pf (toStr (map_of (args tool) ''content'')))]))]
    \<and> map_of (jsonField ''message'' (map_of (args tool) ''message'')
               @ [(''content'', btoaUtf8 pf (toStr (map_of (args tool) ''content'')))]) ''sha''
        = None"
proof -
  let ?put = "updateFile pf net svc owner repo path (map_of (args tool) ''content'') None
                (map_of (args tool) ''message'') w1"
  have res: "executeTool pf net now tool snap sys
         = (case ?put of
              (Inl e', w2) \<Rightarrow> (''Error: '' @ e', sys\<lparr>world := w2\<rparr>)
            | (Inr done, w2) \<Rightarrow>
                (''Success: File created/updated.'',
                 setLastActionTimestamp now (sys\<lparr>world := w2\<rparr>)))"
    using svc owner repo path name rd
    by (simp add: executeTool_def tryTool_create_or_update_file Let_def truthy_def toStr_def
          split: prod.splits sum.splits)
  have "world (snd (executeTool pf net now tool snap sys)) = snd ?put"
    unfolding res by (simp add: setLastActionTimestamp_def split: prod.splits sum.splits)
  then have log: "httpLog (world (snd (executeTool pf net now tool snap sys)))
        = httpLog w1
          @ [buildRequest svc PUT (contentsEndpoint pf owner repo path)
               (Some (jsonField ''message'' (map_of (args tool) ''message'')
                      @ [(''content'', btoaUtf8 pf (toStr (map_of (args tool) ''content'')))]))]"
    by (simp add: updateFile_world truthy_def)
  have nosha: "map_of (jsonField ''message'' (map_of (args tool) ''message'')
               @ [(''content'', btoaUtf8 pf (toStr (map_of (args tool) ''content'')))]) ''sha''
        = None"
    by (simp add: jsonField_def split: option.splits)
  from res log nosha show ?thesis by blast
qed

text \<open>
  The provider refuses the read with status 401; the file is created all the same, by a
  write without version token.
\<close>

theorem create_or_update_file_swallows_read_failure_witness:
  "fst (getRepoContents samplePlatform lockedNet \<lparr>token = ''tok''\<rparr> ''octo'' ''demo'' ''a.txt''
          (world (sampleSystem [])))
     = Inl ''Unauthorized: Invalid Token''
   \<and> fst (executeTool samplePlatform lockedNet 7 createTool sampleAgent (sampleSystem []))
       = ''Success: File created/updated.''
   \<and> httpLog (world (snd (executeTool samplePlatform lockedNet 7 createTool sampleAgent
                             (sampleSystem []))))
       = [buildRequest \<lparr>token = ''tok''\<rparr> GET sampleEndpoint None,
          buildRequest \<lparr>token = ''tok''\<rparr> PUT sampleEndpoint
            (Some [(''message'', ''add a''), (''content'', ''aGk='')])]"
proof -
  let ?sys = "sampleSystem [] :: (string \<times> GitHubFile) list System"
  let ?w1 = "\<lparr>remote = [] :: (string \<times> GitHubFile) list,
              httpLog = [buildRequest \<lparr>token = ''tok''\<rparr> GET sampleEndpoint None]\<rparr>"
  have svc: "service sampleAgent = Some \<lparr>token = ''tok''\<rparr>"
    by (simp add: sampleAgent_def)
  have owner: "resolveOwner (args createTool) (contextState sampleAgent) = Some ''octo''"
    by (simp add: resolveOwner_def createTool_def sampleTool_def sampleAgent_def
          sampleContext_def js_or_def truthy_def)
  have repo: "resolveRepo (args createTool) (contextState sampleAgent) = Some ''demo''"
    by (simp add: resolveRepo_def createTool_def sampleTool_def sampleAgent_def
          sampleContext_def js_or_def truthy_def)
  have path: "resolvePath (args createTool) (contextState sampleAgent) = ''a.txt''"
    by (simp add: resolvePath_def createTool_def sampleTool_def sampleAgent_def
          sampleContext_def js_or_def truthy_def toStr_def)
  have name: "tc_name createTool = ''create_or_update_file''"
    by (simp add: createTool_def sampleTool_def)
  have ep: "contentsEndpoint samplePlatform ''octo'' ''demo'' ''a.txt'' = sampleEndpoint"
    by (simp add: contentsEndpoint_def encodePath_def samplePlatform_def sampleEndpoint_def)
  have rd: "getRepoContents samplePlatform lockedNet \<lparr>token = ''tok''\<rparr> ''octo'' ''demo'' ''a.txt''
              (world ?sys)
            = (Inl ''Unauthorized: Invalid Token'', ?w1)"
    by (simp add: getRepoContents_def service_fetch_def ep lockedNet_def sampleSystem_def
          ok_def Let_def)
  have enc: "btoaUtf8 samplePlatform ''hi'' = ''aGk=''"
    by (simp add: samplePlatform_def)
  have put: "updateFile samplePlatform lockedNet \<lparr>token = ''tok''\<rparr> ''octo'' ''demo'' ''a.txt''
               (map_of (args createTool) ''content'') None (map_of (args createTool) ''message'') ?w1
             = (Inr JOther,
                \<lparr>remote = [(sampleEndpoint, storedFile sampleEndpoint (Some ''aGk=''))],
                 httpLog = [buildRequest \<lparr>token = ''tok''\<rparr> GET sampleEndpoint None,
                            buildRequest \<lparr>token = ''tok''\<rparr> PUT sampleEndpoint
                              (Some [(''message'', ''add a''), (''content'', ''aGk='')])]\<rparr>)"
    by (simp add: updateFile_def service_fetch_def ep lockedNet_def memNet_def createTool_def
          sampleTool_def enc toStr_def truthy_def jsonField_def ok_def Let_def)
  from create_or_update_file_swallows_read_failure
         [OF svc owner _ repo _ path name rd, of 7]
  show ?thesis
    by (simp add: rd put ep setLastActionTimestamp_def)
qed

section \<open>Tool execution: the mutation timestamp\<close>

lemma tool_name_cases:
  obtains "name = ''list_files''" | "name = ''read_file''"
    | "name = ''create_or_update_file''" | "name = ''replace_in_file''"
    | "name = ''delete_file''"
    | "name \<noteq> ''list_files''" "name \<noteq> ''read_file''" "name \<noteq> ''create_or_update_file''"
      "name \<noteq> ''replace_in_file''" "name \<noteq> ''delete_file''"
  by blast

lemma tryTool_timestamp:
  "lastActionTimestamp (agent (snd (tryTool pf net now svc name a owner repo path sys)))
   = (if (name = ''create_or_update_file''
          \<and> fst (tryTool pf net now svc name a owner repo path sys)
              = Inr ''Success: File created/updated.'')
        \<or> (name = ''replace_in_file''
            \<and> fst (tryTool pf net now svc name a owner repo path sys)
                = Inr ''Success: Content replaced.'')
        \<or> (name = ''delete_file''
            \<and> fst (tryTool pf net now svc name a owner repo path sys)
                = Inr ''Success: File deleted.'')
      then now else lastActionTimestamp (agent sys))"
proof (cases name rule: tool_name_cases)
  case 1
  then show ?thesis
    by (simp add: tryTool_list_files split: prod.splits sum.splits)
next
  case 2
  then show ?thesis
    by (simp add: tryTool_read_file split: prod.splits sum.splits)
next
  case 3
  then show ?thesis
    by (simp add: tryTool_create_or_update_file setLastActionTimestamp_def
          split: prod.splits sum.splits)
next
  case 4
  then show ?thesis
    by (simp add: tryTool_replace_in_file setLastActionTimestamp_def Let_def
          split: prod.splits sum.splits)
next
  case 5
  then show ?thesis
    by (simp add: tryTool_delete_file setLastActionTimestamp_def
          split: prod.splits sum.splits)
next
  case 6
  then show ?thesis by (simp add: tryTool_unknown)
qed

lemma tryTool_outcome:
  assumes "name = ''create_or_update_file'' \<or> name = ''replace_in_file'' \<or> name = ''delete_file''"
  shows "(\<exists>e. fst (tryTool pf net now svc name a owner repo path sys) = Inl e)
    \<or> fst (tryTool pf net now svc name a owner repo path sys) = Inr ''Success: File created/updated.''
    \<or> fst (tryTool pf net now svc name a owner repo path sys) = Inr ''Success: Content replaced.''
    \<or> fst (tryTool pf net now svc name a owner repo path sys) = Inr ''Success: File deleted.''"
proof -
  consider "name = ''create_or_update_file''" | "name = ''replace_in_file''"
    | "name = ''delete_file''"
    using assms by blast
  then show ?thesis
  proof cases
    case 1
    then show ?thesis
      by (simp add: tryTool_create_or_update_file split: prod.splits sum.splits)
  next
    case 2
    then show ?thesis
      by (simp add: tryTool_replace_in_file Let_def split: prod.splits sum.splits)
  next
    case 3
    then show ?thesis
      by (simp add: tryTool_delete_file split: prod.splits sum.splits)
  qed
qed

lemma executeTool_timestamp:
  "lastActionTimestamp (agent (snd (executeTool pf net now tool snap sys)))
   = (if (tc_name tool = ''create_or_update_file''
          \<and> fst (executeTool pf net now tool snap sys) = ''Success: File created/updated.'')
        \<or> (tc_name tool = ''replace_in_file''
            \<and> fst (executeTool pf net now tool snap sys) = ''Success: Content replaced.'')
        \<or> (tc_name tool = ''delete_file''
            \<and> fst (executeTool pf net now tool snap sys) = ''Success: File deleted.'')
      then now else lastActionTimestamp (agent sys))
   \<and> (tc_name tool \<in> {''create_or_update_file'', ''replace_in_file'', ''delete_file''} \<longrightarrow>
        fst (executeTool pf net now tool snap sys)
          \<in> {''Success: File created/updated.'', ''Success: Content replaced.'',
              ''Success: File deleted.''}
        \<or> take 7 (fst (executeTool pf net now tool snap sys)) = ''Error: '')
   \<and> (lastActionTimestamp (agent sys) < now \<longrightarrow>
        lastActionTimestamp (agent sys)
          \<le> lastActionTimestamp (agent (snd (executeTool pf net now tool snap sys))))"
proof (cases "service snap")
  case None
  then show ?thesis by (simp add: executeTool_def)
next
  case (Some svc)
  show ?thesis
  proof (cases "\<not> truthy (resolveOwner (args tool) (contextState snap))
                \<or> \<not> truthy (resolveRepo (args tool) (contextState snap))")
    case True
    then show ?thesis using Some by (auto simp: executeTool_def missingContext_def)
  next
    case False
    let ?t = "tryTool pf net now svc (tc_name tool) (args tool)
                (toStr (resolveOwner (args tool) (contextState snap)))
                (toStr (resolveRepo (args tool) (contextState snap)))
                (resolvePath (args tool) (contextState snap)) sys"
    have ex: "executeTool pf net now tool snap sys
              = (case fst ?t of Inl e \<Rightarrow> ''Error: '' @ e | Inr r \<Rightarrow> r, snd ?t)"
      using Some False
      by (simp add: executeTool_def Let_def split: prod.splits sum.splits)
    have stamp: "lastActionTimestamp (agent (snd ?t))
       = (if (tc_name tool = ''create_or_update_file''
              \<and> fst ?t = Inr ''Success: File created/updated.'')
            \<or> (tc_name tool = ''replace_in_file'' \<and> fst ?t = Inr ''Success: Content replaced.'')
            \<or> (tc_name tool = ''delete_file'' \<and> fst ?t = Inr ''Success: File deleted.'')
          then now else lastActionTimestamp (agent sys))"
      by (rule tryTool_timestamp)
    have first: "lastActionTimestamp (agent (snd (executeTool pf net now tool snap sys)))
       = (if (tc_name tool = ''create_or_update_file''
              \<and> fst (executeTool pf net now tool snap sys) = ''Success: File created/updated.'')
            \<or> (tc_name tool = ''replace_in_file''
                \<and> fst (executeTool pf net now tool snap sys) = ''Success: Content replaced.'')
            \<or> (tc_name tool = ''delete_file''
                \<and> fst (executeTool pf net now tool snap sys) = ''Success: File deleted.'')
          then now else lastActionTimestamp (agent sys))"
      unfolding ex using stamp by (cases "fst ?t") auto
    have second: "tc_name tool \<in> {''create_or_update_file'', ''replace_in_file'', ''delete_file''} \<longrightarrow>
        fst (executeTool pf net now tool snap sys)
          \<in> {''Success: File created/updated.'', ''Success: Content replaced.'',
              ''Success: File deleted.''}
        \<or> take 7 (fst (executeTool pf net now tool snap sys)) = ''Error: ''"
    proof
      assume "tc_name tool \<in> {''create_or_update_file'', ''replace_in_file'', ''delete_file''}"
      then have "tc_name tool = ''create_or_update_file'' \<or> tc_name tool = ''replace_in_file''
                 \<or> tc_name tool = ''delete_file''" by blast
      from tryTool_outcome[OF this, of pf net now svc "args tool"
             "toStr (resolveOwner (args tool) (contextState snap))"
             "toStr (resolveRepo (args tool) (contextState snap))"
             "resolvePath (args tool) (contextState snap)" sys]
      show "fst (executeTool pf net now tool snap sys)
          \<in> {''Success: File created/updated.'', ''Success: Content replaced.'',
              ''Success: File deleted.''}
        \<or> take 7 (fst (executeTool pf net now tool snap sys)) = ''Error: ''"
        unfolding ex by auto
    qed
    from first second show ?thesis by auto
  qed
qed

text \<open>
  Claim C5, as the code has it. A successful \<open>create_or_update_file\<close>,
  \<open>replace_in_file\<close> or \<open>delete_file\<close> sets the mutation timestamp to the reading of
  the clock, once; every other execution (a failure of any tool, \<open>list_files\<close>,
  \<open>read_file\<close>, an unknown tool) leaves it as it was. An execution of one of the three
  mutating tools either returns its success message or a result that starts with
  \<^verbatim>\<open>Error: \<close>. So the timestamp increases strictly exactly when a mutating tool succeeds
  and the clock reads later than the stored value.
\<close>

theorem lastActionTimestamp_after_executeTool:
  "lastActionTimestamp (agent (snd (executeTool pf net now tool snap sys)))
   = (if (tc_name tool = ''create_or_update_file''
          \<and> fst (executeTool pf net now tool snap sys) = ''Success: File created/updated.'')
        \<or> (tc_name tool = ''replace_in_file''
            \<and> fst (executeTool pf net now tool snap sys) = ''Success: Content replaced.'')
        \<or> (tc_name tool = ''delete_file''
            \<and> fst (executeTool pf net now tool snap sys) = ''Success: File deleted.'')
      then now else lastActionTimestamp (agent sys))
   \<and> (tc_name tool \<in> {''create_or_update_file'', ''replace_in_file'', ''delete_file''} \<longrightarrow>
        fst (executeTool pf net now tool snap sys)
          \<in> {''Success: File created/updated.'', ''Success: Content replaced.'',
              ''Success: File deleted.''}
        \<or> take 7 (fst (executeTool pf net now tool snap sys)) = ''Error: '')
   \<and> (lastActionTimestamp (agent sys)
          < lastActionTimestamp (agent (snd (executeTool pf net now tool snap sys)))
        \<longleftrightarrow> lastActionTimestamp (agent sys) < now
            \<and> ((tc_name tool = ''create_or_update_file''
                 \<and> fst (executeTool pf net now tool snap sys) = ''Success: File created/updated.'')
               \<or> (tc_name tool = ''replace_in_file''
                   \<and> fst (executeTool pf net now tool snap sys) = ''Success: Content replaced.'')
               \<or> (tc_name tool = ''delete_file''
                   \<and> fst (executeTool pf net now tool snap sys) = ''Success: File deleted.'')))"
proof -
  note old = executeTool_timestamp [of pf net now tool snap sys]
  from old have first: "lastActionTimestamp (agent (snd (executeTool pf net now tool snap sys)))
   = (if (tc_name tool = ''create_or_update_file''
          \<and> fst (executeTool pf net now tool snap sys) = ''Success: File created/updated.'')
        \<or> (tc_name tool = ''replace_in_file''
            \<and> fst (executeTool pf net now tool snap sys) = ''Success: Content replaced.'')
        \<or> (tc_name tool = ''delete_file''
            \<and> fst (executeTool pf net now tool snap sys) = ''Success: File deleted.'')
      then now else lastActionTimestamp (agent sys))" by blast
  have third: "lastActionTimestamp (agent sys)
          < lastActionTimestamp (agent (snd (executeTool pf net now tool snap sys)))
        \<longleftrightarrow> lastActionTimestamp (agent sys) < now
            \<and> ((tc_name tool = ''create_or_update_file''
                 \<and> fst (executeTool pf net now tool snap sys) = ''Success: File created/updated.'')
               \<or> (tc_name tool = ''replace_in_file''
                   \<and> fst (executeTool pf net now tool snap sys) = ''Success: Content replaced.'')
               \<or> (tc_name tool = ''delete_file''
                   \<and> fst (executeTool pf net now tool snap sys) = ''Success: File deleted.''))"
    by (subst first) auto
  from old third show ?thesis by blast
qed

lemma executeTool_deleteTool_sample:
  assumes svc: "service snap = Some \<lparr>token = ''tok''\<rparr>"
    and ctx: "contextState snap = sampleContext"
    and w: "world sys = \<lparr>remote = sampleFiles ''YS1h'', httpLog = []\<rparr>"
  shows "executeTool samplePlatform memNet now deleteTool snap sys
         = (''Success: File deleted.'',
            setLastActionTimestamp now
              (sys\<lparr>world := \<lparr>remote = [],
                               httpLog = [buildRequest \<lparr>token = ''tok''\<rparr> GET sampleEndpoint None,
                                          buildRequest \<lparr>token = ''tok''\<rparr> DELETE sampleEndpoint
                                            (Some [(''message'', ''rm''), (''sha'', ''sha-YS1h'')])]\<rparr>\<rparr>))"
proof -
  have ep: "contentsEndpoint samplePlatform ''octo'' ''demo'' ''a.txt'' = sampleEndpoint"
    by (simp add: contentsEndpoint_def encodePath_def samplePlatform_def sampleEndpoint_def)
  have del: "deleteFile samplePlatform memNet \<lparr>token = ''tok''\<rparr> ''octo'' ''demo'' ''a.txt''
               (Some ''rm'') None \<lparr>remote = sampleFiles ''YS1h'', httpLog = []\<rparr>
             = (Inr JOther,
                \<lparr>remote = [],
                 httpLog = [buildRequest \<lparr>token = ''tok''\<rparr> GET sampleEndpoint None,
                            buildRequest \<lparr>token = ''tok''\<rparr> DELETE sampleEndpoint
                              (Some [(''message'', ''rm''), (''sha'', ''sha-YS1h'')])]\<rparr>)"
    by (simp add: deleteFile_def getRepoContents_def service_fetch_def ep memNet_def
          sampleFiles_def storedFile_def truthy_def toStr_def jsonField_def json_sha_def ok_def
          Let_def)
  show ?thesis
    using svc ctx w
    by (simp add: executeTool_def deleteTool_def sampleTool_def sampleContext_def
          resolveOwner_def resolveRepo_def resolvePath_def js_or_def truthy_def toStr_def
          tryTool_delete_file del)
qed

theorem lastActionTimestamp_after_executeTool_witness:
  "tc_name deleteTool \<in> {''create_or_update_file'', ''replace_in_file'', ''delete_file''}
   \<and> lastActionTimestamp (agent (sampleSystem (sampleFiles ''YS1h''))) < 7
   \<and> fst (executeTool samplePlatform memNet 7 deleteTool sampleAgent
             (sampleSystem (sampleFiles ''YS1h''))) = ''Success: File deleted.''
   \<and> lastActionTimestamp
        (agent (snd (executeTool samplePlatform memNet 7 deleteTool sampleAgent
                       (sampleSystem (sampleFiles ''YS1h''))))) = 7"
proof -
  have ev: "fst (executeTool samplePlatform memNet 7 deleteTool sampleAgent
                   (sampleSystem (sampleFiles ''YS1h''))) = ''Success: File deleted.''"
    by (subst executeTool_deleteTool_sample) (simp_all add: sampleAgent_def sampleSystem_def)
  have name: "tc_name deleteTool = ''delete_file''"
    by (simp add: deleteTool_def sampleTool_def)
  have before: "lastActionTimestamp (agent (sampleSystem (sampleFiles ''YS1h''))) = 0"
    by (simp add: sampleSystem_def sampleAgent_def)
  from lastActionTimestamp_after_executeTool
         [of samplePlatform memNet 7 deleteTool sampleAgent "sampleSystem (sampleFiles ''YS1h'')"]
  show ?thesis using ev name before by simp
qed

text \<open>
  The claim as stated fails: a deletion succeeds at a moment when the clock reads what
  the timestamp already holds, and the timestamp does not increase.
\<close>

theorem lastActionTimestamp_counterexample:
  "fst (executeTool samplePlatform memNet 1700000000000 deleteTool (agent stampedSystem)
          stampedSystem) = ''Success: File deleted.''
   \<and> lastActionTimestamp (agent stampedSystem) = 1700000000000
   \<and> lastActionTimestamp
        (agent (snd (executeTool samplePlatform memNet 1700000000000 deleteTool
                       (agent stampedSystem) stampedSystem))) = 1700000000000"
  by (subst executeTool_deleteTool_sample, simp add: stampedSystem_def sampleAgent_def,
      simp add: stampedSystem_def sampleAgent_def, simp add: stampedSystem_def,
      subst executeTool_deleteTool_sample, simp add: stampedSystem_def sampleAgent_def,
      simp add: stampedSystem_def sampleAgent_def, simp add: stampedSystem_def,
      simp add: stampedSystem_def setLastActionTimestamp_def)

section \<open>Tool execution: inference of owner, repository and path\<close>








section \<open>The status of tool invocations\<close>

lemma collectPart_pending:
  "status ` set (snd acc) \<subseteq> {pending} \<Longrightarrow>
     status ` set (snd (collectPart now rnd acc part)) \<subseteq> {pending}"
  by (cases acc) (auto simp: collectPart_def Let_def split: option.splits)

lemma foldl_collectPart_pending:
  "status ` set (snd acc) \<subseteq> {pending} \<Longrightarrow>
     status ` set (snd (foldl (collectPart now rnd) acc candidate)) \<subseteq> {pending}"
proof (induction candidate arbitrary: acc)
  case Nil
  then show ?case by simp
next
  case (Cons part candidate)
  from Cons.prems have "status ` set (snd (collectPart now rnd acc part)) \<subseteq> {pending}"
    by (rule collectPart_pending)
  from Cons.IH[OF this] show ?case by simp
qed

lemma processModelResponse_agent:
  "agent (processModelResponse now rnd (candidate # others) sys)
   = (agent sys)
       \<lparr>messages := messages (agent sys)
          @ [\<lparr>msg_id = toString (now + 1), role = RoleModel,
               msg_text = Some (fst (foldl (collectPart now rnd) ([], []) candidate)),
               timestamp = now,
               toolCalls = (if snd (foldl (collectPart now rnd) ([], []) candidate) = [] then None
                            else Some (snd (foldl (collectPart now rnd) ([], []) candidate))),
               toolResponse = None\<rparr>],
        pendingToolCall :=
          (if snd (foldl (collectPart now rnd) ([], []) candidate) = []
           then pendingToolCall (agent sys)
           else Some (hd (snd (foldl (collectPart now rnd) ([], []) candidate)))),
        isThinking := False\<rparr>"
  by (simp add: processModelResponse_def setMessages_def setPendingToolCall_def
        setIsThinking_def Let_def split: prod.splits)

lemma processModelResponse_created_pending:
  "butlast (messages (agent (processModelResponse now rnd (candidate # others) sys)))
     = messages (agent sys)
   \<and> status ` set (toolsOf (last (messages (agent (processModelResponse now rnd
                                                       (candidate # others) sys)))))
       \<subseteq> {pending}"
proof -
  have "status ` set (snd (foldl (collectPart now rnd) ([], []) candidate)) \<subseteq> {pending}"
    by (rule foldl_collectPart_pending) simp
  then show ?thesis
    by (simp add: processModelResponse_agent toolsOf_def)
qed

lemma statusesIn_processModelResponse:
  assumes "statusesIn (agent sys) \<subseteq> {pending, executed}"
  shows "statusesIn (agent (processModelResponse now rnd response sys)) \<subseteq> {pending, executed}"
proof (cases response)
  case Nil
  then show ?thesis
    using assms by (simp add: processModelResponse_def setIsThinking_def statusesIn_def)
next
  case (Cons candidate others)
  let ?tools = "snd (foldl (collectPart now rnd) ([], []) candidate)"
  have p: "status ` set ?tools \<subseteq> {pending}"
    by (rule foldl_collectPart_pending) simp
  have h: "?tools \<noteq> [] \<Longrightarrow> status (hd ?tools) = pending"
    using p by (cases ?tools) auto
  show ?thesis
    using assms p h
    by (auto simp: Cons processModelResponse_agent statusesIn_def toolsOf_def
             split: option.splits if_splits)
qed

lemma statusesIn_engineSettled:
  assumes "statusesIn (agent sys) \<subseteq> {pending, executed}"
  shows "statusesIn (agent (engineSettled now rnd outcome sys)) \<subseteq> {pending, executed}"
proof (cases outcome)
  case (Inl e)
  then show ?thesis
    using assms
    by (auto simp: engineSettled_def setIsThinking_def setMessages_def statusesIn_def
          systemMessage_def toolsOf_def Let_def)
next
  case (Inr response)
  then show ?thesis
    using assms by (simp add: engineSettled_def statusesIn_processModelResponse)
qed

lemma statusesIn_sendMessage:
  assumes "statusesIn (agent sys) \<subseteq> {pending, executed}"
  shows "statusesIn (agent (sendMessage now txt (agent sys) sys)) \<subseteq> {pending, executed}"
  using assms
  by (auto simp: sendMessage_def setIsThinking_def setMessages_def statusesIn_def
        systemMessage_def toolsOf_def Let_def)

lemma statusesIn_rejectToolCall:
  assumes "statusesIn (agent sys) \<subseteq> {pending, executed}"
  shows "statusesIn (agent (rejectToolCall now sys)) \<subseteq> {pending, executed}"
  using assms
  by (auto simp: rejectToolCall_def setPendingToolCall_def setMessages_def statusesIn_def
        systemMessage_def toolsOf_def split: option.splits)

text \<open>The tool execution adapter changes nothing of the provider but the timestamp.\<close>

lemma tryTool_agent:
  "agent (snd (tryTool pf net now svc name a owner repo path sys))
   = (agent sys)\<lparr>lastActionTimestamp :=
        lastActionTimestamp (agent (snd (tryTool pf net now svc name a owner repo path sys)))\<rparr>"
proof (cases name rule: tool_name_cases)
  case 1
  then show ?thesis
    by (simp add: tryTool_list_files split: prod.splits sum.splits)
next
  case 2
  then show ?thesis
    by (simp add: tryTool_read_file split: prod.splits sum.splits)
next
  case 3
  then show ?thesis
    by (simp add: tryTool_create_or_update_file setLastActionTimestamp_def
          split: prod.splits sum.splits)
next
  case 4
  then show ?thesis
    by (simp add: tryTool_replace_in_file setLastActionTimestamp_def Let_def
          split: prod.splits sum.splits)
next
  case 5
  then show ?thesis
    by (simp add: tryTool_delete_file setLastActionTimestamp_def
          split: prod.splits sum.splits)
next
  case 6
  then show ?thesis by (simp add: tryTool_unknown)
qed

lemma executeTool_agent:
  "agent (snd (executeTool pf net now tool snap sys))
   = (agent sys)\<lparr>lastActionTimestamp :=
        lastActionTimestamp (agent (snd (executeTool pf net now tool snap sys)))\<rparr>"
proof (cases "service snap")
  case None
  then show ?thesis by (simp add: executeTool_def)
next
  case (Some svc)
  show ?thesis
  proof (cases "\<not> truthy (resolveOwner (args tool) (contextState snap))
                \<or> \<not> truthy (resolveRepo (args tool) (contextState snap))")
    case True
    then show ?thesis using Some by (auto simp: executeTool_def)
  next
    case False
    let ?t = "tryTool pf net now svc (tc_name tool) (args tool)
                (toStr (resolveOwner (args tool) (contextState snap)))
                (toStr (resolveRepo (args tool) (contextState snap)))
                (resolvePath (args tool) (contextState snap)) sys"
    have "snd (executeTool pf net now tool snap sys) = snd ?t"
      using Some False by (simp add: executeTool_def Let_def split: prod.splits sum.splits)
    then show ?thesis using tryTool_agent[of pf net now svc "tc_name tool" "args tool"
             "toStr (resolveOwner (args tool) (contextState snap))"
             "toStr (resolveRepo (args tool) (contextState snap))"
             "resolvePath (args tool) (contextState snap)" sys] by simp
  qed
qed

lemma messages_executeTool:
  "messages (agent (snd (executeTool pf net now tool snap sys))) = messages (agent sys)"
  by (subst executeTool_agent) simp

lemma pendingToolCall_executeTool:
  "pendingToolCall (agent (snd (executeTool pf net now tool snap sys)))
     = pendingToolCall (agent sys)"
  by (subst executeTool_agent) simp

lemma statuses_subset_iff:
  "(\<Union>m \<in> set msgs. status ` set (toolsOf m)) \<subseteq> S
     \<longleftrightarrow> (\<forall>m \<in> set msgs. \<forall>t \<in> set (toolsOf m). status t \<in> S)"
  by auto

lemma statusesIn_markExecuted:
  assumes "(\<Union>m \<in> set msgs. status ` set (toolsOf m)) \<subseteq> {pending, executed}"
  shows "(\<Union>m \<in> set (markExecuted p msgs). status ` set (toolsOf m)) \<subseteq> {pending, executed}"
proof (cases "msgs = []")
  case True
  then show ?thesis by (simp add: markExecuted_def)
next
  case False
  then obtain front final where msgs: "msgs = front @ [final]"
    by (metis append_butlast_last_id)
  have front: "\<forall>m \<in> set front. \<forall>t \<in> set (toolsOf m). status t \<in> {pending, executed}"
    and final: "\<forall>t \<in> set (toolsOf final). status t \<in> {pending, executed}"
    using assms unfolding statuses_subset_iff msgs by auto
  show ?thesis
  proof (cases "toolCalls final")
    case None
    then show ?thesis using assms by (simp add: msgs markExecuted_def)
  next
    case (Some tcs)
    have "\<forall>t \<in> set tcs. status t \<in> {pending, executed}"
      using final Some by (simp add: toolsOf_def)
    then have "\<forall>t \<in> set (toolsOf (final\<lparr>toolCalls :=
                   Some (map (\<lambda>t. if tc_id t = tc_id p then t\<lparr>status := executed\<rparr> else t) tcs)\<rparr>)).
                 status t \<in> {pending, executed}"
      by (auto simp: toolsOf_def)
    then show ?thesis
      unfolding statuses_subset_iff using front
      by (auto simp: msgs markExecuted_def Some Let_def)
  qed
qed

lemma statusesIn_approveToolCall:
  assumes "statusesIn (agent sys) \<subseteq> {pending, executed}"
  shows "statusesIn (agent (approveToolCall pf net tExec tDone (agent sys) sys))
           \<subseteq> {pending, executed}"
proof (cases "pendingToolCall (agent sys)")
  case None
  then show ?thesis
    using assms
    by (simp add: approveToolCall_def approveToolCall_begin_def approveToolCall_execute_def)
next
  case (Some p)
  show ?thesis
  proof (cases "gemini (agent sys)")
    case None
    then show ?thesis
      using assms Some
      by (simp add: approveToolCall_def approveToolCall_begin_def approveToolCall_execute_def)
  next
    case (Some g)
    let ?begun = "approveToolCall_begin (agent sys) sys"
    have pend: "pendingToolCall (agent ?begun) = None"
      using Some \<open>pendingToolCall (agent sys) = Some p\<close>
      by (simp add: approveToolCall_begin_def setIsThinking_def setPendingToolCall_def
            setMessages_def)
    obtain res sys1 where ex: "executeTool pf net tExec p (agent sys) ?begun = (res, sys1)"
      by (cases "executeTool pf net tExec p (agent sys) ?begun")
    have "pendingToolCall (agent sys1) = None"
      using pendingToolCall_executeTool[of pf net tExec p "agent sys" ?begun] ex pend by simp
    moreover have "(\<Union>m \<in> set (messages (agent sys)). status ` set (toolsOf m))
                     \<subseteq> {pending, executed}"
      using assms by (simp add: statusesIn_def)
    ultimately show ?thesis
      using Some \<open>pendingToolCall (agent sys) = Some p\<close> ex
      by (auto simp: approveToolCall_def approveToolCall_execute_def setMessages_def
            statusesIn_def toolsOf_def Let_def)
  qed
qed

lemma statusesIn_step:
  assumes "statusesIn (agent sys) \<subseteq> {pending, executed}"
  shows "statusesIn (agent (step pf net ev sys)) \<subseteq> {pending, executed}"
proof (cases ev)
  case (SendMessage now message)
  then show ?thesis using assms by (simp add: step_def statusesIn_sendMessage)
next
  case (EngineSettled now rnd outcome)
  then show ?thesis using assms by (simp add: step_def statusesIn_engineSettled)
next
  case (ApproveToolCall tExec tDone)
  then show ?thesis using assms by (simp add: step_def statusesIn_approveToolCall)
next
  case (RejectToolCall now)
  then show ?thesis using assms by (simp add: step_def statusesIn_rejectToolCall)
next
  case EnableAgent
  then show ?thesis using assms by (simp add: step_def statusesIn_def)
qed

lemma statusesIn_run:
  "statusesIn (agent sys) \<subseteq> {pending, executed} \<Longrightarrow>
     statusesIn (agent (run pf net evs sys)) \<subseteq> {pending, executed}"
  unfolding run_def
proof (induction evs arbitrary: sys)
  case Nil
  then show ?case by simp
next
  case (Cons ev evs)
  from Cons.prems have "statusesIn (agent (step pf net ev sys)) \<subseteq> {pending, executed}"
    by (rule statusesIn_step)
  from Cons.IH[OF this] show ?case by simp
qed

lemma approveToolCall_begin_marks:
  assumes p: "pendingToolCall snap = Some p"
    and g: "gemini snap \<noteq> None"
    and ne: "messages (agent sys) \<noteq> []"
  shows "butlast (messages (agent (approveToolCall_begin snap sys)))
           = butlast (messages (agent sys))
    \<and> map status (toolsOf (last (messages (agent (approveToolCall_begin snap sys)))))
        = map (\<lambda>t. if tc_id t = tc_id p then executed else status t)
            (toolsOf (last (messages (agent sys))))"
proof -
  from g obtain key where "gemini snap = Some key" by blast
  then have m: "messages (agent (approveToolCall_begin snap sys))
                  = markExecuted p (messages (agent sys))"
    using p
    by (simp add: approveToolCall_begin_def setIsThinking_def setPendingToolCall_def
          setMessages_def)
  show ?thesis
    unfolding m using ne
    by (auto simp: markExecuted_def toolsOf_def Let_def split: option.splits)
qed

lemma rejectToolCall_statuses:
  "map toolsOf (messages (agent (rejectToolCall now sys)))
     = map toolsOf (messages (agent sys)) @ [[]]"
  by (simp add: rejectToolCall_def setMessages_def setPendingToolCall_def systemMessage_def
        toolsOf_def)

text \<open>
  Claim C3, as the code has it. Every tool invocation is created with status
  \<open>pending\<close>, in the model turn that \<open>processModelResponse\<close> appends. \<open>rejectToolCall\<close>
  changes the status of no invocation: it appends a turn without invocations and leaves
  the others as they are. \<open>approveToolCall\<close> sets the status of the approved invocation
  in the last turn to \<open>executed\<close> before the tool is attempted, whatever the outcome of
  the attempt will be, and changes no other status. Along every run of the provider the
  statuses stay within \<open>pending\<close> and \<open>executed\<close>: the statuses \<open>approved\<close>,
  \<open>rejected\<close> and \<open>failed\<close> are never assigned.
\<close>

theorem tool_status_lifecycle:
  "butlast (messages (agent (processModelResponse now rnd (candidate # others) sys)))
     = messages (agent sys)
   \<and> status ` set (toolsOf (last (messages (agent (processModelResponse now rnd
                                                       (candidate # others) sys)))))
       \<subseteq> {pending}
   \<and> map toolsOf (messages (agent (rejectToolCall now sys)))
       = map toolsOf (messages (agent sys)) @ [[]]
   \<and> (pendingToolCall snap = Some p \<longrightarrow> gemini snap \<noteq> None \<longrightarrow> messages (agent sys) \<noteq> [] \<longrightarrow>
        butlast (messages (agent (approveToolCall_begin snap sys)))
          = butlast (messages (agent sys))
        \<and> map status (toolsOf (last (messages (agent (approveToolCall_begin snap sys)))))
            = map (\<lambda>t. if tc_id t = tc_id p then executed else status t)
                (toolsOf (last (messages (agent sys)))))
   \<and> (statusesIn (agent sys) \<subseteq> {pending, executed} \<longrightarrow>
        statusesIn (agent (run pf net evs sys)) \<subseteq> {pending, executed})"
  using processModelResponse_created_pending [of now rnd candidate others sys]
    rejectToolCall_statuses [of now sys]
    approveToolCall_begin_marks [of snap p sys]
    statusesIn_run [of sys pf net evs]
  by blast

lemma proposedSystem_agent:
  "agent proposedSystem
   = sampleAgent
       \<lparr>messages :=
          [\<lparr>msg_id = toString 1, role = RoleUser, msg_text = Some ''a'', timestamp = 1,
            toolCalls = None, toolResponse = None\<rparr>,
           \<lparr>msg_id = toString 4, role = RoleModel, msg_text = Some [], timestamp = 3,
            toolCalls = Some [\<lparr>tc_id = toString 3 @ ''0.5'', tc_name = ''delete_file'',
                                args = [(''path'', ''a.txt''), (''message'', ''rm'')],
                                status = pending\<rparr>],
            toolResponse = None\<rparr>],
        pendingToolCall :=
          Some \<lparr>tc_id = toString 3 @ ''0.5'', tc_name = ''delete_file'',
                 args = [(''path'', ''a.txt''), (''message'', ''rm'')], status = pending\<rparr>\<rparr>"
  by (simp add: proposedSystem_def thinkingSystem_def proposal_def sendMessage_def
        engineSettled_def processModelResponse_def collectPart_def sampleAgent_def
        sampleSystem_def sampleRnd_def setMessages_def setIsThinking_def
        setPendingToolCall_def truthy_def Let_def)

text \<open>
  A message, a proposed deletion and its approval: the statuses stay within \<open>pending\<close>
  and \<open>executed\<close>; at the approval the proposed invocation goes from \<open>pending\<close> to
  \<open>executed\<close>.
\<close>

theorem tool_status_lifecycle_witness:
  "statusesIn (agent (sampleSystem (sampleFiles ''YS1h''))) \<subseteq> {pending, executed}
   \<and> statusesIn
        (agent (run samplePlatform memNet
                  [SendMessage 1 ''a'', EngineSettled 3 sampleRnd (Inr proposal),
                   ApproveToolCall 5 6]
                  (sampleSystem (sampleFiles ''YS1h''))))
       \<subseteq> {pending, executed}
   \<and> map status (toolsOf (last (messages (agent proposedSystem)))) = [pending]
   \<and> map status
        (toolsOf (last (messages (agent (approveToolCall_begin (agent proposedSystem)
                                            proposedSystem)))))
       = [executed]"
proof -
  have start: "statusesIn (agent (sampleSystem (sampleFiles ''YS1h''))) \<subseteq> {pending, executed}"
    by (simp add: statusesIn_def sampleSystem_def sampleAgent_def)
  from tool_status_lifecycle
         [of 0 sampleRnd "[]" "[]" "sampleSystem (sampleFiles ''YS1h'')" sampleAgent
             "sampleTool [] []" samplePlatform memNet
             "[SendMessage 1 ''a'', EngineSettled 3 sampleRnd (Inr proposal), ApproveToolCall 5 6]"]
    start
  have ran: "statusesIn
        (agent (run samplePlatform memNet
                  [SendMessage 1 ''a'', EngineSettled 3 sampleRnd (Inr proposal),
                   ApproveToolCall 5 6]
                  (sampleSystem (sampleFiles ''YS1h''))))
       \<subseteq> {pending, executed}"
    by blast
  have before: "map status (toolsOf (last (messages (agent proposedSystem)))) = [pending]"
    by (simp add: proposedSystem_agent toolsOf_def)
  have pend: "pendingToolCall (agent proposedSystem)
              = Some \<lparr>tc_id = toString 3 @ ''0.5'', tc_name = ''delete_file'',
                       args = [(''path'', ''a.txt''), (''message'', ''rm'')], status = pending\<rparr>"
    by (simp add: proposedSystem_agent)
  have key: "gemini (agent proposedSystem) \<noteq> None"
    by (simp add: proposedSystem_agent sampleAgent_def)
  have some: "messages (agent proposedSystem) \<noteq> []"
    by (simp add: proposedSystem_agent)
  from tool_status_lifecycle
         [of 0 sampleRnd "[]" "[]" proposedSystem "agent proposedSystem"
             "\<lparr>tc_id = toString 3 @ ''0.5'', tc_name = ''delete_file'',
               args = [(''path'', ''a.txt''), (''message'', ''rm'')], status = pending\<rparr>"
             samplePlatform memNet "[]"]
    pend key some
  have "map status (toolsOf (last (messages (agent (approveToolCall_begin (agent proposedSystem)
                                                      proposedSystem)))))
       = map (\<lambda>t. if tc_id t = toString 3 @ ''0.5'' then executed else status t)
            (toolsOf (last (messages (agent proposedSystem))))"
    by simp
  then have after: "map status
        (toolsOf (last (messages (agent (approveToolCall_begin (agent proposedSystem)
                                            proposedSystem)))))
       = [executed]"
    by (simp add: proposedSystem_agent toolsOf_def)
  from start ran before after show ?thesis by blast
qed

text \<open>
  The claim as stated fails: after the user has denied the proposed deletion its status
  is still \<open>pending\<close>, not \<open>rejected\<close>; and an approval takes it to \<open>executed\<close> at
  once, before the attempt, without passing through \<open>approved\<close>.
\<close>

theorem tool_status_counterexample:
  "map status (concat (map toolsOf (messages (agent proposedSystem)))) = [pending]
   \<and> map status (concat (map toolsOf (messages (agent (rejectToolCall 4 proposedSystem)))))
       = [pending]
   \<and> map status
        (concat (map toolsOf (messages (agent (approveToolCall_begin (agent proposedSystem)
                                                 proposedSystem)))))
       = [executed]"
  by (simp add: proposedSystem_agent rejectToolCall_def approveToolCall_begin_def
        setMessages_def setPendingToolCall_def setIsThinking_def systemMessage_def
        markExecuted_def toolsOf_def sampleAgent_def Let_def)

end
